theory Spec2Isabelle
  imports Main "HOL-Library.Sublist"
begin

section \<open>JavaScript values, strings and errors\<close>

text \<open>
  Strings are lists of code units in the range 0..255. A JSON value as the runtime holds
  it after \<open>JSON.parse\<close>; \<open>JUndefined\<close> is the value of a missing property. A number
  carries its canonical decimal rendering, which is all the program ever does with one.
\<close>

datatype jsval =
    JUndefined
  | JNull
  | JBool bool
  | JNum string
  | JStr string
  | JArr "jsval list"
  | JObj "(string \<times> jsval) list"

datatype js_error = Error string | TypeError string | SyntaxError string

fun message :: "js_error \<Rightarrow> string" where
  "message (Error m) = m"
| "message (TypeError m) = m"
| "message (SyntaxError m) = m"

text \<open>White space and line terminators below U+0100, as \<open>trim\<close> and \<open>\s\<close> see them.\<close>

definition is_space :: "char \<Rightarrow> bool" where
  "is_space c = (c \<in> set [CHR 0x09, CHR 0x0A, CHR 0x0B, CHR 0x0C, CHR 0x0D, CHR 0x20, CHR 0xA0])"

definition trim :: "string \<Rightarrow> string" where
  "trim s = rev (dropWhile is_space (rev (dropWhile is_space s)))"

text \<open>\<open>s.split('\n')\<close>: a separator that is one character; the empty string gives one empty piece.\<close>

fun split_char :: "char \<Rightarrow> string \<Rightarrow> string \<Rightarrow> string list" where
  "split_char sep acc [] = [acc]"
| "split_char sep acc (c # cs) =
     (if c = sep then acc # split_char sep [] cs else split_char sep (acc @ [c]) cs)"

text \<open>
  \<open>s.split(/\s{2,}/)\<close>: the scan moves right one position at a time; the first position
  where two white-space characters begin is a match, which is greedy and takes the whole
  run. The piece before the match is emitted and the scan resumes after the run.
\<close>

function split_ws2 :: "string \<Rightarrow> string \<Rightarrow> string list" where
  "split_ws2 acc [] = [acc]"
| "split_ws2 acc [c] = [acc @ [c]]"
| "split_ws2 acc (c # d # cs) =
     (if is_space c \<and> is_space d then acc # split_ws2 [] (dropWhile is_space cs)
      else split_ws2 (acc @ [c]) (d # cs))"
  by pat_completeness auto
termination
proof (relation "measure (\<lambda>(acc, s). length s)")
  fix acc :: string and c d :: char and cs :: string
  have "length (dropWhile is_space cs) \<le> length cs"
    by (rule length_dropWhile_le)
  then show "((([]::string), dropWhile is_space cs), (acc, c # d # cs))
      \<in> measure (\<lambda>(acc, s). length s)"
    by simp
qed simp_all

text \<open>\<open>s.includes(p)\<close>\<close>

fun starts_with :: "string \<Rightarrow> string \<Rightarrow> bool" where
  "starts_with s [] = True"
| "starts_with [] (p # ps) = False"
| "starts_with (c # cs) (p # ps) = (c = p \<and> starts_with cs ps)"

fun includes_str :: "string \<Rightarrow> string \<Rightarrow> bool" where
  "includes_str [] p = (p = [])"
| "includes_str (c # cs) p = (starts_with (c # cs) p \<or> includes_str cs p)"

text \<open>Array destructuring \<open>[a, b, c] = xs\<close>: a position past the end is \<open>undefined\<close>.\<close>

fun element :: "string list \<Rightarrow> nat \<Rightarrow> jsval" where
  "element [] n = JUndefined"
| "element (x # xs) 0 = JStr x"
| "element (x # xs) (Suc n) = element xs n"

text \<open>
  The conversion to a string that a template literal applies, on a value that came out of
  \<open>JSON.parse\<close>. An array joins its elements with commas, \<open>null\<close> and \<open>undefined\<close>
  elements giving the empty string. An object has no callable \<open>toString\<close> of its own, so
  it gives \<open>[object Object]\<close> through the prototype, unless an own property named
  \<open>toString\<close> hides the prototype's method: then the conversion throws a TypeError.
\<close>

fun to_string :: "jsval \<Rightarrow> js_error + string"
  and join_elements :: "jsval list \<Rightarrow> js_error + string" where
  "to_string JUndefined = Inr ''undefined''"
| "to_string JNull = Inr ''null''"
| "to_string (JBool b) = Inr (if b then ''true'' else ''false'')"
| "to_string (JNum n) = Inr n"
| "to_string (JStr s) = Inr s"
| "to_string (JArr xs) = join_elements xs"
| "to_string (JObj kvs) =
     (if ''toString'' \<in> set (map fst kvs)
      then Inl (TypeError ''Cannot convert object to primitive value'')
      else Inr ''[object Object]'')"
| "join_elements [] = Inr []"
| "join_elements (x # xs) =
     (case (if x = JUndefined \<or> x = JNull then Inr [] else to_string x) of
        Inl e \<Rightarrow> Inl e
      | Inr a \<Rightarrow>
          (if xs = [] then Inr a
           else (case join_elements xs of Inl e \<Rightarrow> Inl e | Inr b \<Rightarrow> Inr (a @ '','' @ b))))"

text \<open>
  Reading a property \<open>v.k\<close>, for the names this program reads (none of them is inherited
  from a prototype): \<open>undefined\<close> and \<open>null\<close> throw, an object gives its own property or
  \<open>undefined\<close>, every other value gives \<open>undefined\<close>. A parsed object holds each key once.
\<close>

definition get_prop :: "jsval \<Rightarrow> string \<Rightarrow> js_error + jsval" where
  "get_prop v k =
     (case v of
        JUndefined \<Rightarrow>
          Inl (TypeError (''Cannot read properties of undefined (reading '' @ [CHR 0x27] @ k @ [CHR 0x27] @ '')''))
      | JNull \<Rightarrow>
          Inl (TypeError (''Cannot read properties of null (reading '' @ [CHR 0x27] @ k @ [CHR 0x27] @ '')''))
      | JObj kvs \<Rightarrow> Inr (case map_of kvs k of None \<Rightarrow> JUndefined | Some x \<Rightarrow> x)
      | _ \<Rightarrow> Inr JUndefined)"

text \<open>Decimal digits: a number of fixed width, and a natural number as \<open>String\<close> prints it.\<close>

definition digit :: "nat \<Rightarrow> char" where
  "digit n = ''0123456789'' ! (n mod 10)"

fun pad :: "nat \<Rightarrow> nat \<Rightarrow> string" where
  "pad 0 n = []"
| "pad (Suc k) n = pad k (n div 10) @ [digit n]"

function show_nat :: "nat \<Rightarrow> string" where
  "show_nat n = (if n < 10 then [digit n] else show_nat (n div 10) @ [digit n])"
  by pat_completeness auto
termination
  by (relation "measure (\<lambda>n. n)") auto

declare show_nat.simps [simp del]

section \<open>The runtime and the state of one server process\<close>

text \<open>
  A child process either fails (the rejection's \<open>message\<close>) or completes with its
  standard output and standard error.
\<close>

datatype outcome = Failed string | Done string string

text \<open>
  What the process has done so far, oldest first: a shell command with what came of it,
  a timer that was awaited, a line on standard output, a line on standard error.
\<close>

datatype event =
    Exec string outcome
  | Wait nat
  | ConsoleLog string
  | ConsoleError string
  | ConsoleErrorObj string js_error

text \<open>The broken-down UTC reading of \<open>new Date()\<close>.\<close>

record utc =
  year :: nat
  month :: nat
  day :: nat
  hour :: nat
  minute :: nat
  second :: nat
  millis :: nat

text \<open>
  \<open>toISOString\<close>: \<open>YYYY-MM-DDTHH:mm:ss.sssZ\<close>, the year with a sign and six digits
  when it is past 9999.
\<close>

definition year_text :: "nat \<Rightarrow> string" where
  "year_text y = (if y \<le> 9999 then pad 4 y else ''+'' @ pad 6 y)"

definition toISOString :: "utc \<Rightarrow> string" where
  "toISOString d =
     year_text (year d)
     @ ''-'' @ pad 2 (month d) @ ''-'' @ pad 2 (day d)
     @ ''T'' @ pad 2 (hour d) @ '':'' @ pad 2 (minute d) @ '':'' @ pad 2 (second d)
     @ ''.'' @ pad 3 (millis d) @ ''Z''"

definition valid_utc :: "utc \<Rightarrow> bool" where
  "valid_utc d =
     (year d \<le> 275760 \<and> 1 \<le> month d \<and> month d \<le> 12 \<and> 1 \<le> day d \<and> day d \<le> 31
      \<and> hour d < 24 \<and> minute d < 60 \<and> second d < 60 \<and> millis d < 1000)"

text \<open>\<open>s.replace(/[:.]/g, '-')\<close>\<close>

definition replace_colon_dot :: "string \<Rightarrow> string" where
  "replace_colon_dot s = map (\<lambda>c. if c = CHR '':'' \<or> c = CHR ''.'' then CHR ''-'' else c) s"

text \<open>
  The services of Node.js that the program calls: running a shell command, letting a
  timer elapse, reading the clock, and the JSON serialiser and parser. The world \<open>'w\<close>
  is everything outside the process (the containers, the file system, the clock).
\<close>

record 'w runtime =
  exec :: "string \<Rightarrow> 'w \<Rightarrow> outcome \<times> 'w"
  sleep :: "nat \<Rightarrow> 'w \<Rightarrow> 'w"
  date_now :: "'w \<Rightarrow> nat"
  date_utc :: "'w \<Rightarrow> utc"
  json_stringify :: "jsval \<Rightarrow> nat \<Rightarrow> string"
  json_parse :: "string \<Rightarrow> js_error + jsval"

record 'w state =
  world :: 'w
  trace :: "event list"

text \<open>The shell commands among the events, in the order they were run.\<close>

fun commands :: "event list \<Rightarrow> string list" where
  "commands [] = []"
| "commands (Exec c r # es) = c # commands es"
| "commands (e # es) = commands es"

text \<open>The lines written to the console, in order.\<close>

fun console :: "event list \<Rightarrow> event list" where
  "console [] = []"
| "console (Exec c r # es) = console es"
| "console (Wait n # es) = console es"
| "console (e # es) = e # console es"

text \<open>
  The two streams of the console apart: the lines that \<open>console.log\<close> wrote to standard
  output, and what \<open>console.error\<close> wrote to standard error.
\<close>

fun stdout :: "event list \<Rightarrow> string list" where
  "stdout [] = []"
| "stdout (ConsoleLog line # es) = line # stdout es"
| "stdout (e # es) = stdout es"

fun stderr :: "event list \<Rightarrow> event list" where
  "stderr [] = []"
| "stderr (ConsoleError line # es) = ConsoleError line # stderr es"
| "stderr (ConsoleErrorObj label e # es) = ConsoleErrorObj label e # stderr es"
| "stderr (e # es) = stderr es"

text \<open>The events between an earlier state of the process and a later one.\<close>

definition events_since :: "'w state \<Rightarrow> 'w state \<Rightarrow> event list" where
  "events_since s s' = drop (length (trace s)) (trace s')"

text \<open>\<open>process.env.N8N_CONTAINER_NAME || 'n8n-container'\<close>: unset and empty both give the default.\<close>

record manager =
  containerName :: string

definition new_manager :: "string option \<Rightarrow> manager" where
  "new_manager env =
     (case env of
        None \<Rightarrow> \<lparr>containerName = ''n8n-container''\<rparr>
      | Some v \<Rightarrow> \<lparr>containerName = (if v = [] then ''n8n-container'' else v)\<rparr>)"

section \<open>Asynchronous functions\<close>

text \<open>
  An async function that is run to its end, every \<open>await\<close> included: from the state it
  starts in it either throws (\<open>Inl\<close>) or returns (\<open>Inr\<close>), and it leaves a state.
  \<open>seq m f\<close> is \<open>const x = await m; f(x)\<close>, \<open>try_catch m h\<close> is
  \<open>try { m } catch (e) { h(e) }\<close>, and \<open>lift\<close> is an expression that may throw.
\<close>

type_synonym ('w, 'a) action = "'w state \<Rightarrow> (js_error + 'a) \<times> 'w state"

definition ok :: "'a \<Rightarrow> ('w, 'a) action" where
  "ok x s = (Inr x, s)"

definition throw :: "js_error \<Rightarrow> ('w, 'a) action" where
  "throw e s = (Inl e, s)"

definition lift :: "js_error + 'a \<Rightarrow> ('w, 'a) action" where
  "lift r s = (r, s)"

definition seq :: "('w, 'a) action \<Rightarrow> ('a \<Rightarrow> ('w, 'b) action) \<Rightarrow> ('w, 'b) action" where
  "seq m f s = (case m s of (Inl e, s') \<Rightarrow> (Inl e, s') | (Inr x, s') \<Rightarrow> f x s')"

definition try_catch :: "('w, 'a) action \<Rightarrow> (js_error \<Rightarrow> ('w, 'a) action) \<Rightarrow> ('w, 'a) action" where
  "try_catch m h s = (case m s of (Inl e, s') \<Rightarrow> h e s' | (Inr x, s') \<Rightarrow> (Inr x, s'))"

text \<open>
  The services of the runtime as actions. \<open>exec_async\<close> is \<open>exec\<close> with a callback or
  promisified: it rejects with an \<open>Error\<close> that carries the message of the failure, and
  resolves with standard output and standard error. \<open>delay\<close> is
  \<open>await new Promise(resolve => setTimeout(resolve, ms))\<close>, \<open>emit\<close> is a call of
  \<open>console.log\<close> or \<open>console.error\<close>, \<open>now\<close> is \<open>Date.now()\<close> and \<open>new_date\<close> is
  \<open>new Date()\<close>.
\<close>

definition exec_async :: "'w runtime \<Rightarrow> string \<Rightarrow> ('w, string \<times> string) action" where
  "exec_async rt cmd s =
     (case exec rt cmd (world s) of
        (Failed m, w') \<Rightarrow> (Inl (Error m), \<lparr>world = w', trace = trace s @ [Exec cmd (Failed m)]\<rparr>)
      | (Done out err, w') \<Rightarrow>
          (Inr (out, err), \<lparr>world = w', trace = trace s @ [Exec cmd (Done out err)]\<rparr>))"

definition delay :: "'w runtime \<Rightarrow> nat \<Rightarrow> ('w, unit) action" where
  "delay rt ms s = (Inr (), \<lparr>world = sleep rt ms (world s), trace = trace s @ [Wait ms]\<rparr>)"

definition emit :: "event \<Rightarrow> ('w, unit) action" where
  "emit e s = (Inr (), s\<lparr>trace := trace s @ [e]\<rparr>)"

definition now :: "'w runtime \<Rightarrow> ('w, nat) action" where
  "now rt s = (Inr (date_now rt (world s)), s)"

definition new_date :: "'w runtime \<Rightarrow> ('w, utc) action" where
  "new_date rt s = (Inr (date_utc rt (world s)), s)"

section \<open>The shell commands\<close>

text \<open>The command lines, as the template literals of both files build them.\<close>

definition cmd_list_no_header :: "manager \<Rightarrow> string" where
  "cmd_list_no_header mgr = ''docker exec '' @ containerName mgr @ '' n8n list:workflow --no-header''"

definition cmd_list :: "manager \<Rightarrow> string" where
  "cmd_list mgr = ''docker exec '' @ containerName mgr @ '' n8n list:workflow''"

definition cmd_write_payload :: "string \<Rightarrow> string \<Rightarrow> string" where
  "cmd_write_payload json tmpFile = ''echo '' @ [CHR 0x27] @ json @ [CHR 0x27] @ '' > '' @ tmpFile"

definition cmd_export_one :: "manager \<Rightarrow> string \<Rightarrow> string" where
  "cmd_export_one mgr wid =
     ''docker exec '' @ containerName mgr @ '' n8n export:workflow --id='' @ wid
     @ '' --output=/tmp/backup-'' @ wid @ ''.json''"

definition cmd_copy_in :: "string \<Rightarrow> manager \<Rightarrow> string" where
  "cmd_copy_in file mgr = ''docker cp '' @ file @ '' '' @ containerName mgr @ '':/tmp/update.json''"

definition cmd_import :: "manager \<Rightarrow> string" where
  "cmd_import mgr = ''docker exec '' @ containerName mgr @ '' n8n import:workflow --input=/tmp/update.json''"

definition cmd_remove :: "string \<Rightarrow> string" where
  "cmd_remove tmpFile = ''rm '' @ tmpFile"

definition cmd_activate :: "manager \<Rightarrow> string \<Rightarrow> string" where
  "cmd_activate mgr wid =
     ''docker exec '' @ containerName mgr @ '' n8n update:workflow --id='' @ wid @ '' --active=true''"

definition cmd_restart :: "manager \<Rightarrow> string" where
  "cmd_restart mgr = ''docker restart '' @ containerName mgr"

definition cmd_export_all :: "manager \<Rightarrow> string \<Rightarrow> string" where
  "cmd_export_all mgr backupFile =
     ''docker exec '' @ containerName mgr @ '' n8n export:workflow --all --output=/tmp/'' @ backupFile"

definition cmd_copy_out :: "manager \<Rightarrow> string \<Rightarrow> string" where
  "cmd_copy_out mgr backupFile =
     ''docker cp '' @ containerName mgr @ '':/tmp/'' @ backupFile @ '' ./'' @ backupFile"

definition cmd_status :: "manager \<Rightarrow> string" where
  "cmd_status mgr =
     ''docker ps --filter name='' @ containerName mgr @ '' --format '' @ [CHR 0x22] @ ''{{.Status}}'' @ [CHR 0x22]"

definition cmd_find :: "manager \<Rightarrow> string \<Rightarrow> string" where
  "cmd_find mgr wid = ''docker exec '' @ containerName mgr @ '' n8n list:workflow | grep '' @ wid"

definition cmd_logs :: "manager \<Rightarrow> string" where
  "cmd_logs mgr = ''docker logs --tail 20 '' @ containerName mgr"

section \<open>src/index.js: the workflow manager\<close>

text \<open>
  \<open>executeCommand\<close>: a rejection is rethrown with a prefix; standard error is logged
  unless it is empty or mentions WARNING.
\<close>

definition executeCommand :: "'w runtime \<Rightarrow> string \<Rightarrow> ('w, string) action" where
  "executeCommand rt cmd =
     try_catch
       (seq (exec_async rt cmd) (\<lambda>(stdout, stderr).
        seq (if stderr \<noteq> [] \<and> \<not> includes_str stderr ''WARNING''
             then emit (ConsoleError (''Command stderr: '' @ stderr)) else ok ()) (\<lambda>_.
        ok stdout)))
       (\<lambda>error. throw (Error (''Command failed: '' @ message error)))"

definition parse_line :: "string \<Rightarrow> jsval" where
  "parse_line line =
     (let cols = split_ws2 [] (trim line)
      in JObj [(''id'', element cols 0), (''name'', element cols 1),
               (''active'', JBool (element cols 2 = JStr ''Active''))])"

definition listWorkflows :: "'w runtime \<Rightarrow> manager \<Rightarrow> ('w, jsval) action" where
  "listWorkflows rt mgr =
     try_catch
       (seq (executeCommand rt (cmd_list_no_header mgr)) (\<lambda>result.
        ok (JArr (map parse_line (split_char (CHR 0x0A) [] (trim result))))))
       (\<lambda>error. throw (Error (''Failed to list workflows: '' @ message error)))"

text \<open>
  \<open>updateWorkflow\<close>: the payload is written with \<open>echo\<close> and the temporary file is
  removed by the promisified \<open>exec\<close> itself, so their rejections keep the message of
  the child process; \<open>workflowId\<close> is not used. \<open>JSON.stringify(undefined)\<close> is
  \<open>undefined\<close>, which the template literal prints as such.
\<close>

definition stringify_in_template :: "'w runtime \<Rightarrow> jsval \<Rightarrow> string" where
  "stringify_in_template rt v = (if v = JUndefined then ''undefined'' else json_stringify rt v 0)"

definition tmp_file :: "nat \<Rightarrow> string" where
  "tmp_file t = ''/tmp/workflow-update-'' @ show_nat t @ ''.json''"

definition updateWorkflow :: "'w runtime \<Rightarrow> manager \<Rightarrow> jsval \<Rightarrow> jsval \<Rightarrow> ('w, jsval) action" where
  "updateWorkflow rt mgr workflowId updateData =
     try_catch
       (seq (now rt) (\<lambda>t.
        seq (exec_async rt (cmd_write_payload (stringify_in_template rt updateData) (tmp_file t))) (\<lambda>_.
        seq (executeCommand rt (cmd_copy_in (tmp_file t) mgr)) (\<lambda>_.
        seq (executeCommand rt (cmd_import mgr)) (\<lambda>_.
        seq (exec_async rt (cmd_remove (tmp_file t))) (\<lambda>_.
        ok (JObj [(''success'', JBool True), (''message'', JStr ''Workflow updated successfully'')])))))))
       (\<lambda>error. throw (Error (''Failed to update workflow: '' @ message error)))"

definition restartContainer :: "'w runtime \<Rightarrow> manager \<Rightarrow> ('w, jsval) action" where
  "restartContainer rt mgr =
     try_catch
       (seq (executeCommand rt (cmd_restart mgr)) (\<lambda>_.
        seq (delay rt 10000) (\<lambda>_.
        ok (JObj [(''success'', JBool True), (''message'', JStr ''Container restarted successfully'')]))))
       (\<lambda>error. throw (Error (''Failed to restart container: '' @ message error)))"

definition backup_file_name :: "utc \<Rightarrow> string" where
  "backup_file_name d = ''n8n-backup-'' @ replace_colon_dot (toISOString d) @ ''.json''"

definition backupWorkflows :: "'w runtime \<Rightarrow> manager \<Rightarrow> ('w, jsval) action" where
  "backupWorkflows rt mgr =
     try_catch
       (seq (new_date rt) (\<lambda>d.
        seq (executeCommand rt (cmd_export_all mgr (backup_file_name d))) (\<lambda>_.
        seq (executeCommand rt (cmd_copy_out mgr (backup_file_name d))) (\<lambda>_.
        ok (JObj [(''success'', JBool True), (''file'', JStr (backup_file_name d))])))))
       (\<lambda>error. throw (Error (''Failed to create backup: '' @ message error)))"

text \<open>
  \<open>troubleshoot\<close>: the workflow check has a \<open>try\<close> of its own, around the template
  literal and the command, so neither a failing command nor a failing conversion of
  \<open>workflowId\<close> leaves it.
\<close>

definition check_entry :: "string \<Rightarrow> string \<Rightarrow> jsval" where
  "check_entry c r = JObj [(''check'', JStr c), (''result'', JStr r)]"

definition troubleshoot :: "'w runtime \<Rightarrow> manager \<Rightarrow> jsval \<Rightarrow> ('w, jsval) action" where
  "troubleshoot rt mgr workflowId =
     try_catch
       (seq (executeCommand rt (cmd_status mgr)) (\<lambda>containerStatus.
        seq (try_catch
               (seq (lift (to_string workflowId)) (\<lambda>wid.
                seq (executeCommand rt (cmd_find mgr wid)) (\<lambda>workflowStatus.
                ok (check_entry ''Workflow Status'' (trim workflowStatus)))))
               (\<lambda>error. ok (check_entry ''Workflow Status'' ''Workflow not found''))) (\<lambda>workflowCheck.
        seq (executeCommand rt (cmd_logs mgr)) (\<lambda>logs.
        ok (JArr [check_entry ''Container Status'' (trim containerStatus), workflowCheck,
                  check_entry ''Recent Logs'' logs])))))
       (\<lambda>error. throw (Error (''Failed to troubleshoot: '' @ message error)))"

section \<open>src/index.js: the tool-call handler\<close>

datatype content = TextContent string

record tool_result =
  content :: "content list"
  isError :: "bool option"

definition json_text :: "'w runtime \<Rightarrow> jsval \<Rightarrow> tool_result" where
  "json_text rt v = \<lparr>content = [TextContent (json_stringify rt v 2)], isError = None\<rparr>"

definition error_result :: "js_error \<Rightarrow> tool_result" where
  "error_result e = \<lparr>content = [TextContent (''Error: '' @ message e)], isError = Some True\<rparr>"

text \<open>
  The handler of a tool call. The request has passed the schema of the SDK, so \<open>name\<close>
  is a string; \<open>arguments\<close> is whatever the client sent, \<open>undefined\<close> when it sent none.
\<close>

definition call_tool :: "'w runtime \<Rightarrow> manager \<Rightarrow> string \<Rightarrow> jsval \<Rightarrow> ('w, tool_result) action" where
  "call_tool rt mgr name args =
     try_catch
       (if name = ''list_workflows'' then
          seq (listWorkflows rt mgr) (\<lambda>workflows. ok (json_text rt workflows))
        else if name = ''update_workflow'' then
          seq (lift (get_prop args ''workflowId'')) (\<lambda>workflowId.
          seq (lift (get_prop args ''updateData'')) (\<lambda>updateData.
          seq (updateWorkflow rt mgr workflowId updateData) (\<lambda>updateResult.
          ok (json_text rt updateResult))))
        else if name = ''restart_container'' then
          seq (restartContainer rt mgr) (\<lambda>restartResult. ok (json_text rt restartResult))
        else if name = ''backup_workflows'' then
          seq (backupWorkflows rt mgr) (\<lambda>backupResult. ok (json_text rt backupResult))
        else if name = ''troubleshoot'' then
          seq (lift (get_prop args ''workflowId'')) (\<lambda>workflowId.
          seq (troubleshoot rt mgr workflowId) (\<lambda>troubleshootResult.
          ok (json_text rt troubleshootResult)))
        else throw (Error (''Unknown tool: '' @ name)))
       (\<lambda>error.
          seq (emit (ConsoleErrorObj ''Tool execution error:'' error)) (\<lambda>_.
          ok (error_result error)))"

section \<open>src/unnamed/part_000: the workflow manager\<close>

text \<open>
  Here \<open>executeCommand\<close> rejects with the error of \<open>exec\<close> itself, and every operation
  catches what its body throws and returns a string.
\<close>

definition p0_executeCommand :: "'w runtime \<Rightarrow> string \<Rightarrow> ('w, string) action" where
  "p0_executeCommand rt cmd = seq (exec_async rt cmd) (\<lambda>(stdout, stderr). ok stdout)"

definition p0_listWorkflows :: "'w runtime \<Rightarrow> manager \<Rightarrow> ('w, string) action" where
  "p0_listWorkflows rt mgr =
     try_catch
       (seq (p0_executeCommand rt (cmd_list mgr)) (\<lambda>result. ok result))
       (\<lambda>error. ok (''Error listing workflows: '' @ message error))"

definition p0_updateWorkflow :: "'w runtime \<Rightarrow> manager \<Rightarrow> jsval \<Rightarrow> jsval \<Rightarrow> ('w, string) action" where
  "p0_updateWorkflow rt mgr workflowId updateFile =
     try_catch
       (seq (lift (to_string workflowId)) (\<lambda>wid.
        seq (p0_executeCommand rt (cmd_export_one mgr wid)) (\<lambda>_.
        seq (lift (to_string updateFile)) (\<lambda>file.
        seq (p0_executeCommand rt (cmd_copy_in file mgr)) (\<lambda>_.
        seq (p0_executeCommand rt (cmd_import mgr)) (\<lambda>_.
        seq (p0_executeCommand rt (cmd_activate mgr wid)) (\<lambda>_.
        seq (p0_executeCommand rt (cmd_restart mgr)) (\<lambda>_.
        ok ''Workflow updated successfully''))))))))
       (\<lambda>error. ok (''Error updating workflow: '' @ message error))"

definition p0_restartContainer :: "'w runtime \<Rightarrow> manager \<Rightarrow> ('w, string) action" where
  "p0_restartContainer rt mgr =
     try_catch
       (seq (p0_executeCommand rt (cmd_restart mgr)) (\<lambda>_.
        seq (delay rt 20000) (\<lambda>_.
        ok ''Container restarted successfully'')))
       (\<lambda>error. ok (''Error restarting container: '' @ message error))"

definition p0_backupWorkflows :: "'w runtime \<Rightarrow> manager \<Rightarrow> ('w, string) action" where
  "p0_backupWorkflows rt mgr =
     try_catch
       (seq (new_date rt) (\<lambda>d.
        seq (p0_executeCommand rt (cmd_export_all mgr (backup_file_name d))) (\<lambda>_.
        seq (p0_executeCommand rt (cmd_copy_out mgr (backup_file_name d))) (\<lambda>_.
        ok (''Backup created: '' @ backup_file_name d)))))
       (\<lambda>error. ok (''Error creating backup: '' @ message error))"

text \<open>\<open>checks.join('\n\n')\<close> of the three lines.\<close>

definition p0_report :: "string \<Rightarrow> string \<Rightarrow> string \<Rightarrow> string" where
  "p0_report containerStatus workflowStatus logs =
     ''Container status: '' @ trim containerStatus @ [CHR 0x0A, CHR 0x0A]
     @ ''Workflow status: '' @ trim workflowStatus @ [CHR 0x0A, CHR 0x0A]
     @ ''Recent logs:'' @ [CHR 0x0A] @ logs"

definition p0_troubleshoot :: "'w runtime \<Rightarrow> manager \<Rightarrow> jsval \<Rightarrow> ('w, string) action" where
  "p0_troubleshoot rt mgr workflowId =
     try_catch
       (seq (p0_executeCommand rt (cmd_status mgr)) (\<lambda>containerStatus.
        seq (lift (to_string workflowId)) (\<lambda>wid.
        seq (p0_executeCommand rt (cmd_find mgr wid)) (\<lambda>workflowStatus.
        seq (p0_executeCommand rt (cmd_logs mgr)) (\<lambda>logs.
        ok (p0_report containerStatus workflowStatus logs))))))
       (\<lambda>error. ok (''Error during troubleshooting: '' @ message error))"

section \<open>src/unnamed/part_000: the server\<close>

text \<open>
  \<open>handleRequest\<close>: destructuring \<open>undefined\<close> or \<open>null\<close> throws; a \<open>case\<close> of the
  \<open>switch\<close> matches a string only; \<open>params.id\<close> and its like are read before the
  operation is called and throw when \<open>params\<close> is missing.
\<close>

definition destructure :: "jsval \<Rightarrow> js_error + jsval \<times> jsval" where
  "destructure request =
     (case request of
        JUndefined \<Rightarrow>
          Inl (TypeError (''Cannot destructure property '' @ [CHR 0x27] @ ''method'' @ [CHR 0x27] @ '' of ''
                          @ [CHR 0x27] @ ''request'' @ [CHR 0x27] @ '' as it is undefined.''))
      | JNull \<Rightarrow>
          Inl (TypeError (''Cannot destructure property '' @ [CHR 0x27] @ ''method'' @ [CHR 0x27] @ '' of ''
                          @ [CHR 0x27] @ ''request'' @ [CHR 0x27] @ '' as it is null.''))
      | JObj kvs \<Rightarrow>
          Inr (case map_of kvs ''method'' of None \<Rightarrow> JUndefined | Some x \<Rightarrow> x,
               case map_of kvs ''params'' of None \<Rightarrow> JUndefined | Some x \<Rightarrow> x)
      | _ \<Rightarrow> Inr (JUndefined, JUndefined))"

definition p0_handleRequest :: "'w runtime \<Rightarrow> manager \<Rightarrow> jsval \<Rightarrow> ('w, string) action" where
  "p0_handleRequest rt mgr request =
     seq (lift (destructure request)) (\<lambda>(method, params).
       if method = JStr ''list-workflows'' then p0_listWorkflows rt mgr
       else if method = JStr ''update-workflow'' then
         seq (lift (get_prop params ''id'')) (\<lambda>i.
         seq (lift (get_prop params ''file'')) (\<lambda>f.
         p0_updateWorkflow rt mgr i f))
       else if method = JStr ''restart-container'' then p0_restartContainer rt mgr
       else if method = JStr ''backup-workflows'' then p0_backupWorkflows rt mgr
       else if method = JStr ''troubleshoot'' then
         seq (lift (get_prop params ''workflow'')) (\<lambda>w. p0_troubleshoot rt mgr w)
       else ok ''Unknown command'')"

text \<open>
  The listener of \<open>start\<close> for one chunk of standard input: the reply of a request that
  was handled goes to standard output, what was thrown goes to standard error. The stream
  does not await the listener, so the calls for two chunks may overlap; this is one call,
  followed from the chunk to the line it writes.
\<close>

definition result_line :: "'w runtime \<Rightarrow> string \<Rightarrow> event" where
  "result_line rt response = ConsoleLog (json_stringify rt (JObj [(''result'', JStr response)]) 0)"

definition error_line :: "'w runtime \<Rightarrow> js_error \<Rightarrow> event" where
  "error_line rt e = ConsoleError (json_stringify rt (JObj [(''error'', JStr (message e))]) 0)"

definition p0_on_data :: "'w runtime \<Rightarrow> manager \<Rightarrow> string \<Rightarrow> ('w, unit) action" where
  "p0_on_data rt mgr data =
     try_catch
       (seq (lift (json_parse rt data)) (\<lambda>request.
        seq (p0_handleRequest rt mgr request) (\<lambda>response.
        emit (result_line rt response))))
       (\<lambda>error. emit (error_line rt error))"

text \<open>Predicates of the statements below: a column of the table that holds no white space,
  and a command that failed.\<close>

definition column :: "string \<Rightarrow> bool" where
  "column x = (x \<noteq> [] \<and> list_all (\<lambda>c. \<not> is_space c) x)"

fun failed :: "event \<Rightarrow> bool" where
  "failed (Exec c (Failed m)) = True"
| "failed e = False"

text \<open>
  What the handler of \<open>src/index.js\<close> makes of an operation: the JSON text of what it
  returns, or the error reply for what it throws, which is also logged.
\<close>

definition respond :: "'w runtime \<Rightarrow> ('w, jsval) action \<Rightarrow> ('w, tool_result) action" where
  "respond rt operation s =
     (case operation s of
        (Inr v, s') \<Rightarrow>
          (Inr \<lparr>content = [TextContent (json_stringify rt v 2)], isError = None\<rparr>, s')
      | (Inl e, s') \<Rightarrow>
          (Inr \<lparr>content = [TextContent (''Error: '' @ message e)], isError = Some True\<rparr>,
           \<lparr>world = world s', trace = trace s' @ [ConsoleErrorObj ''Tool execution error:'' e]\<rparr>))"


text \<open>What \<open>executeCommand\<close> of \<open>src/index.js\<close> logs for the standard error of a command.\<close>

definition stderr_events :: "string \<Rightarrow> event list" where
  "stderr_events err =
     (if err \<noteq> [] \<and> \<not> includes_str err ''WARNING'' then [ConsoleError (''Command stderr: '' @ err)]
      else [])"

section \<open>An example world\<close>

text \<open>
  A world for running the model on concrete inputs: it counts the commands run so far,
  the command numbered \<open>k\<close> (from 0) fails with \<open>msg\<close>, every other one prints
  \<open>out\<close> and nothing on standard error, and the clock stands still. The serialiser
  handles what the examples print (no escapes, no indentation); the parser knows three
  request texts.
\<close>

definition example_clock :: utc where
  "example_clock = \<lparr>year = 2024, month = 3, day = 9, hour = 14, minute = 5, second = 7, millis = 42\<rparr>"

fun example_stringify :: "jsval \<Rightarrow> string"
  and example_elements :: "jsval list \<Rightarrow> string"
  and example_fields :: "(string \<times> jsval) list \<Rightarrow> string" where
  "example_stringify JUndefined = ''undefined''"
| "example_stringify JNull = ''null''"
| "example_stringify (JBool b) = (if b then ''true'' else ''false'')"
| "example_stringify (JNum n) = n"
| "example_stringify (JStr s) = [CHR 0x22] @ s @ [CHR 0x22]"
| "example_stringify (JArr xs) = ''['' @ example_elements xs @ '']''"
| "example_stringify (JObj kvs) = ''{'' @ example_fields kvs @ ''}''"
| "example_elements [] = []"
| "example_elements (x # xs) =
     example_stringify x @ (if xs = [] then [] else '','' @ example_elements xs)"
| "example_fields [] = []"
| "example_fields ((k, v) # kvs) =
     [CHR 0x22] @ k @ [CHR 0x22] @ '':'' @ example_stringify v
     @ (if kvs = [] then [] else '','' @ example_fields kvs)"

definition example_parse :: "string \<Rightarrow> js_error + jsval" where
  "example_parse text =
     (if text = ''{\"method\":\"list-workflows\"}'' then Inr (JObj [(''method'', JStr ''list-workflows'')])
      else if text = ''{\"method\":\"troubleshoot\"}'' then Inr (JObj [(''method'', JStr ''troubleshoot'')])
      else if text = ''{\"method\":\"troubleshoot\",\"params\":{\"workflow\":\"wf42\"}}''
        then Inr (JObj [(''method'', JStr ''troubleshoot''), (''params'', JObj [(''workflow'', JStr ''wf42'')])])
      else Inl (SyntaxError ''Unexpected end of JSON input''))"

definition example_rt :: "nat \<Rightarrow> string \<Rightarrow> string \<Rightarrow> nat runtime" where
  "example_rt k msg out =
     \<lparr>exec = (\<lambda>cmd n. (if n = k then Failed msg else Done out [], Suc n)),
      sleep = (\<lambda>ms n. n),
      date_now = (\<lambda>n. 1710000000000),
      date_utc = (\<lambda>n. example_clock),
      json_stringify = (\<lambda>v indent. example_stringify v),
      json_parse = example_parse\<rparr>"

definition start_state :: "nat state" where
  "start_state = \<lparr>world = 0, trace = []\<rparr>"

text \<open>The same world with a clock that advances by one millisecond with every command.\<close>

definition ticking_rt :: "nat runtime" where
  "ticking_rt = (example_rt 9 [] ''ok'')\<lparr>date_utc := (\<lambda>n. example_clock\<lparr>millis := n\<rparr>)\<rparr>"

text \<open>
  The same world with a parser that also knows two requests without \<open>params\<close>, one for a
  known method and one for a method that does not exist.
\<close>

definition example_parse_requests :: "string \<Rightarrow> js_error + jsval" where
  "example_parse_requests text =
     (if text = ''{\"method\":\"update-workflow\"}'' then Inr (JObj [(''method'', JStr ''update-workflow'')])
      else if text = ''{\"method\":\"delete-workflow\"}'' then Inr (JObj [(''method'', JStr ''delete-workflow'')])
      else example_parse text)"

definition requests_rt :: "nat runtime" where
  "requests_rt = (example_rt 9 [] ''ok'')\<lparr>json_parse := example_parse_requests\<rparr>"

section \<open>Rules for asynchronous functions\<close>

lemma seqE:
  assumes "seq m f s = (r, s')"
  obtains (thrown) e where "m s = (Inl e, s')" "r = Inl e"
  | (returned) x s1 where "m s = (Inr x, s1)" "f x s1 = (r, s')"
  using assms by (auto simp: seq_def split: prod.splits sum.splits)

lemma try_catchE:
  assumes "try_catch m h s = (r, s')"
  obtains (caught) e s1 where "m s = (Inl e, s1)" "h e s1 = (r, s')"
  | (passed) x where "m s = (Inr x, s')" "r = Inr x"
  using assms by (auto simp: try_catch_def split: prod.splits sum.splits)

lemma exec_asyncE:
  assumes "exec_async rt cmd s = (r, s')"
  obtains (rejected) m w' where "exec rt cmd (world s) = (Failed m, w')" "r = Inl (Error m)"
      "s' = \<lparr>world = w', trace = trace s @ [Exec cmd (Failed m)]\<rparr>"
  | (resolved) out err w' where "exec rt cmd (world s) = (Done out err, w')" "r = Inr (out, err)"
      "s' = \<lparr>world = w', trace = trace s @ [Exec cmd (Done out err)]\<rparr>"
  using assms by (auto simp: exec_async_def split: prod.splits outcome.splits)

lemma ok_eq [simp]: "ok x s = (r, s') \<longleftrightarrow> r = Inr x \<and> s' = s"
  by (auto simp: ok_def)

lemma throw_eq [simp]: "throw e s = (r, s') \<longleftrightarrow> r = Inl e \<and> s' = s"
  by (auto simp: throw_def)

lemma lift_eq [simp]: "lift x s = (r, s') \<longleftrightarrow> r = x \<and> s' = s"
  by (auto simp: lift_def)

lemma emit_eq [simp]:
  "emit e s = (r, s') \<longleftrightarrow> r = Inr () \<and> s' = \<lparr>world = world s, trace = trace s @ [e]\<rparr>"
  by (cases s) (auto simp: emit_def)

lemma delay_eq [simp]:
  "delay rt ms s = (r, s') \<longleftrightarrow>
   r = Inr () \<and> s' = \<lparr>world = sleep rt ms (world s), trace = trace s @ [Wait ms]\<rparr>"
  by (auto simp: delay_def)

lemma now_eq [simp]: "now rt s = (r, s') \<longleftrightarrow> r = Inr (date_now rt (world s)) \<and> s' = s"
  by (auto simp: now_def)

lemma new_date_eq [simp]: "new_date rt s = (r, s') \<longleftrightarrow> r = Inr (date_utc rt (world s)) \<and> s' = s"
  by (auto simp: new_date_def)

lemma p0_executeCommandE:
  assumes "p0_executeCommand rt cmd s = (r, s')"
  obtains (rejected) m w' where "exec rt cmd (world s) = (Failed m, w')" "r = Inl (Error m)"
      "s' = \<lparr>world = w', trace = trace s @ [Exec cmd (Failed m)]\<rparr>"
  | (resolved) out err w' where "exec rt cmd (world s) = (Done out err, w')" "r = Inr out"
      "s' = \<lparr>world = w', trace = trace s @ [Exec cmd (Done out err)]\<rparr>"
  using assms unfolding p0_executeCommand_def
  by (auto elim!: seqE exec_asyncE)

lemma executeCommandE:
  assumes "executeCommand rt cmd s = (r, s')"
  obtains (rejected) m w' where "exec rt cmd (world s) = (Failed m, w')"
      "r = Inl (Error (''Command failed: '' @ m))"
      "s' = \<lparr>world = w', trace = trace s @ [Exec cmd (Failed m)]\<rparr>"
  | (resolved) out err w' where "exec rt cmd (world s) = (Done out err, w')" "r = Inr out"
      "s' = \<lparr>world = w', trace = trace s @ Exec cmd (Done out err) # stderr_events err\<rparr>"
  using assms unfolding executeCommand_def
  by (auto elim!: seqE try_catchE exec_asyncE simp: stderr_events_def split: if_splits)

text \<open>The same two functions, when the outcome of the command is known.\<close>

lemma executeCommand_done:
  "exec rt cmd (world s) = (Done out err, w') \<Longrightarrow>
   executeCommand rt cmd s
   = (Inr out, \<lparr>world = w', trace = trace s @ Exec cmd (Done out err) # stderr_events err\<rparr>)"
  by (simp add: executeCommand_def try_catch_def seq_def exec_async_def emit_def ok_def stderr_events_def)

lemma executeCommand_failed:
  "exec rt cmd (world s) = (Failed m, w') \<Longrightarrow>
   executeCommand rt cmd s
   = (Inl (Error (''Command failed: '' @ m)), \<lparr>world = w', trace = trace s @ [Exec cmd (Failed m)]\<rparr>)"
  by (simp add: executeCommand_def try_catch_def seq_def exec_async_def throw_def)

lemma p0_executeCommand_done:
  "exec rt cmd (world s) = (Done out err, w') \<Longrightarrow>
   p0_executeCommand rt cmd s = (Inr out, \<lparr>world = w', trace = trace s @ [Exec cmd (Done out err)]\<rparr>)"
  by (simp add: p0_executeCommand_def seq_def exec_async_def ok_def)

lemma p0_executeCommand_failed:
  "exec rt cmd (world s) = (Failed m, w') \<Longrightarrow>
   p0_executeCommand rt cmd s = (Inl (Error m), \<lparr>world = w', trace = trace s @ [Exec cmd (Failed m)]\<rparr>)"
  by (simp add: p0_executeCommand_def seq_def exec_async_def)

lemma emit_apply: "emit e s = (Inr (), \<lparr>world = world s, trace = trace s @ [e]\<rparr>)"
  by (cases s) (simp add: emit_def)

section \<open>Facts about traces and commands\<close>

lemma events_since_ext [simp]:
  "events_since s \<lparr>world = w, trace = trace s @ new\<rparr> = new"
  by (simp add: events_since_def)

lemma events_since_same [simp]: "events_since s s = []"
  by (simp add: events_since_def)

lemma commands_append [simp]: "commands (xs @ ys) = commands xs @ commands ys"
  by (induction xs rule: commands.induct) simp_all

lemma console_append [simp]: "console (xs @ ys) = console xs @ console ys"
  by (induction xs rule: console.induct) simp_all

lemma stdout_append [simp]: "stdout (xs @ ys) = stdout xs @ stdout ys"
  by (induction xs rule: stdout.induct) simp_all

lemma stderr_append [simp]: "stderr (xs @ ys) = stderr xs @ stderr ys"
  by (induction xs rule: stderr.induct) simp_all


lemma commands_stderr_events [simp]: "commands (stderr_events err) = []"
  by (simp add: stderr_events_def)

lemma Exec_notin_stderr_events [simp]: "Exec c r \<notin> set (stderr_events err)"
  by (simp add: stderr_events_def)

lemma failed_stderr_events [simp]: "list_ex failed (stderr_events err) = False"
  by (simp add: stderr_events_def)

lemma cmd_remove_distinct:
  "cmd_remove t \<noteq> cmd_write_payload json tmp"
  "cmd_remove t \<noteq> cmd_copy_in file mgr"
  "cmd_remove t \<noteq> cmd_import mgr"
  by (simp_all add: cmd_remove_def cmd_write_payload_def cmd_copy_in_def cmd_import_def)

lemma cmd_activate_distinct:
  "cmd_activate mgr x \<noteq> cmd_export_one mgr wid"
  "cmd_activate mgr x \<noteq> cmd_copy_in file mgr"
  "cmd_activate mgr x \<noteq> cmd_import mgr"
  "cmd_activate mgr x \<noteq> cmd_write_payload json tmp"
  "cmd_activate mgr x \<noteq> cmd_remove tmp"
  by (simp_all add: cmd_activate_def cmd_export_one_def cmd_copy_in_def cmd_import_def
      cmd_write_payload_def cmd_remove_def)

lemma cmd_restart_distinct:
  "cmd_restart mgr \<noteq> cmd_export_one mgr wid"
  "cmd_restart mgr \<noteq> cmd_copy_in file mgr"
  "cmd_restart mgr \<noteq> cmd_import mgr"
  "cmd_restart mgr \<noteq> cmd_write_payload json tmp"
  "cmd_restart mgr \<noteq> cmd_remove tmp"
  "cmd_restart mgr \<noteq> cmd_activate mgr wid"
  by (simp_all add: cmd_restart_def cmd_export_one_def cmd_copy_in_def cmd_import_def
      cmd_write_payload_def cmd_remove_def cmd_activate_def)

lemma cmd_import_distinct:
  "cmd_import mgr \<noteq> cmd_export_one mgr wid"
  "cmd_import mgr \<noteq> cmd_copy_in file mgr"
  "cmd_import mgr \<noteq> cmd_write_payload json tmp"
  by (simp_all add: cmd_export_one_def cmd_copy_in_def cmd_import_def cmd_write_payload_def)

lemma cmd_export_one_distinct:
  "cmd_export_one mgr wid \<noteq> cmd_write_payload json tmp"
  "cmd_export_one mgr wid \<noteq> cmd_copy_in file mgr"
  "cmd_export_one mgr wid \<noteq> cmd_remove tmp"
  by (simp_all add: cmd_export_one_def cmd_write_payload_def cmd_copy_in_def cmd_remove_def)

lemmas cmd_distinct =
  cmd_activate_distinct cmd_restart_distinct cmd_import_distinct cmd_remove_distinct
  cmd_activate_distinct [symmetric] cmd_restart_distinct [symmetric]
  cmd_import_distinct [symmetric] cmd_remove_distinct [symmetric]

text \<open>Definitions to unfold when a run is evaluated on a concrete world.\<close>

lemmas run_defs =
  seq_def try_catch_def ok_def throw_def lift_def emit_def delay_def now_def new_date_def
  exec_async_def executeCommand_def p0_executeCommand_def

lemmas example_defs = example_rt_def start_state_def new_manager_def example_clock_def

lemmas cmd_defs =
  cmd_list_no_header_def cmd_list_def cmd_write_payload_def cmd_export_one_def cmd_copy_in_def
  cmd_import_def cmd_remove_def cmd_activate_def cmd_restart_def cmd_export_all_def
  cmd_copy_out_def cmd_status_def cmd_find_def cmd_logs_def

section \<open>Listing\<close>

lemma split_ws2_plain:
  "\<forall>x\<in>set a. \<not> is_space x \<Longrightarrow> split_ws2 acc (a @ rest) = split_ws2 (acc @ a) rest"
proof (induction a arbitrary: acc)
  case Nil
  then show ?case by simp
next
  case (Cons c a)
  show ?case
  proof (cases "a @ rest")
    case Nil
    then show ?thesis by simp
  next
    case (Cons d cs)
    have "split_ws2 acc (c # d # cs) = split_ws2 (acc @ [c]) (d # cs)"
      using Cons.prems by simp
    also have "\<dots> = split_ws2 ((acc @ [c]) @ a) rest"
      using Cons.IH [of "acc @ [c]"] Cons.prems Cons by simp
    finally show ?thesis using Cons by simp
  qed
qed

lemma trim_plain:
  assumes "s \<noteq> []" "\<not> is_space (hd s)" "\<not> is_space (last s)"
  shows "trim s = s"
proof -
  have a: "dropWhile is_space s = s"
    using assms by (cases s) auto
  have "rev s \<noteq> []" "\<not> is_space (hd (rev s))"
    using assms by (simp_all add: hd_rev)
  then have "dropWhile is_space (rev s) = rev s"
    by (cases "rev s") auto
  with a show ?thesis by (simp add: trim_def)
qed

lemma trim_blank:
  assumes "\<forall>c\<in>set s. is_space c"
  shows "trim s = []"
proof -
  have "dropWhile is_space s = []"
    using assms by (simp add: dropWhile_eq_Nil_conv)
  then show ?thesis
    unfolding trim_def by (simp only: rev.simps dropWhile.simps)
qed

lemma dropWhile_column: "column b \<Longrightarrow> dropWhile is_space (b @ rest) = b @ rest"
  by (cases b) (auto simp: column_def)

lemma split_three_columns:
  assumes "column a" "column b" "column c"
  shows "split_ws2 [] (a @ ''  '' @ b @ ''  '' @ c) = [a, b, c]"
proof -
  have sp: "is_space CHR '' ''" by (simp add: is_space_def)
  have na: "\<forall>x\<in>set a. \<not> is_space x" and nb: "\<forall>x\<in>set b. \<not> is_space x"
    and nc: "\<forall>x\<in>set c. \<not> is_space x"
    using assms by (simp_all add: column_def list_all_iff)
  have "split_ws2 [] (a @ ''  '' @ b @ ''  '' @ c) = split_ws2 a (''  '' @ b @ ''  '' @ c)"
    using split_ws2_plain [OF na, of "[]"] by simp
  also have "\<dots> = a # split_ws2 [] (b @ ''  '' @ c)"
    using sp dropWhile_column [OF assms(2)] by simp
  also have "split_ws2 [] (b @ ''  '' @ c) = split_ws2 b (''  '' @ c)"
    using split_ws2_plain [OF nb, of "[]"] by simp
  also have "\<dots> = b # split_ws2 [] (c @ [])"
    using sp dropWhile_column [OF assms(3), of "[]"] by simp
  also have "split_ws2 [] (c @ []) = [c]"
    using split_ws2_plain [OF nc, of "[]" "[]"] by simp
  finally show ?thesis .
qed

lemma parse_three_columns:
  assumes "column a" "column b" "column c"
  shows "parse_line (a @ ''  '' @ b @ ''  '' @ c)
         = JObj [(''id'', JStr a), (''name'', JStr b), (''active'', JBool (c = ''Active''))]"
proof -
  let ?line = "a @ ''  '' @ b @ ''  '' @ c"
  have a: "a \<noteq> []" "\<not> is_space (hd a)" and c: "c \<noteq> []" "\<not> is_space (last c)"
    using assms by (auto simp: column_def list_all_iff)
  have "hd ?line = hd a" "last ?line = last c"
    using a c by simp_all
  then have "trim ?line = ?line"
    using a c by (intro trim_plain) simp_all
  then show ?thesis
    using split_three_columns [OF assms] by (simp add: parse_line_def numeral_2_eq_2)
qed

lemma listWorkflows_done:
  "exec rt (cmd_list_no_header mgr) (world s) = (Done out err, w') \<Longrightarrow>
   fst (listWorkflows rt mgr s) = Inr (JArr (map parse_line (split_char (CHR 0x0A) [] (trim out))))"
  by (simp add: listWorkflows_def executeCommand_done seq_def try_catch_def ok_def)

lemma p0_listWorkflows_returns_output:
  "exec rt (cmd_list mgr) (world s) = (Done out err, w') \<Longrightarrow>
   p0_listWorkflows rt mgr s
   = (Inr out, \<lparr>world = w', trace = trace s @ [Exec (cmd_list mgr) (Done out err)]\<rparr>)"
  by (simp add: p0_listWorkflows_def p0_executeCommand_done seq_def try_catch_def ok_def)

text \<open>
  The list operation of \<open>src/unnamed/part_000\<close> on the two rows: it returns the text that
  the command printed, which is no sequence of summaries.
\<close>

theorem p0_list_returns_text_counterexample:
  "p0_listWorkflows
     (example_rt 9 [] (''id1  WorkflowA  Active'' @ [CHR 0x0A] @ ''id2  WorkflowB  Inactive''))
     (new_manager None) start_state
   = (Inr (''id1  WorkflowA  Active'' @ [CHR 0x0A] @ ''id2  WorkflowB  Inactive''),
      \<lparr>world = 1,
       trace = [Exec ''docker exec n8n-container n8n list:workflow''
                  (Done (''id1  WorkflowA  Active'' @ [CHR 0x0A] @ ''id2  WorkflowB  Inactive'') [])]\<rparr>)"
  by (simp add: p0_listWorkflows_def run_defs example_defs cmd_defs)

text \<open>
  C1, amended. When the list command of \<open>src/index.js\<close> prints the two rows
  \<open>id1  WorkflowA  Active\<close> and \<open>id2  WorkflowB  Inactive\<close>, \<open>listWorkflows\<close> returns
  exactly the two summaries, in this order, the first active and the second not; more
  generally a row of three columns separated by two spaces gives a summary whose
  \<open>active\<close> flag is true exactly when the third column is the text \<open>Active\<close>. The list
  operation of \<open>src/unnamed/part_000\<close> parses nothing: when its command succeeds it returns
  the text that the command printed, unchanged.
\<close>

theorem list_operations_on_table:
  "(exec rt (cmd_list_no_header mgr) (world s)
    = (Done (''id1  WorkflowA  Active'' @ [CHR 0x0A] @ ''id2  WorkflowB  Inactive'') err, w')
    \<longrightarrow> fst (listWorkflows rt mgr s)
        = Inr (JArr [JObj [(''id'', JStr ''id1''), (''name'', JStr ''WorkflowA''), (''active'', JBool True)],
                     JObj [(''id'', JStr ''id2''), (''name'', JStr ''WorkflowB''), (''active'', JBool False)]]))
   \<and> (\<forall>a b c. column a \<and> column b \<and> column c \<longrightarrow>
         parse_line (a @ ''  '' @ b @ ''  '' @ c)
         = JObj [(''id'', JStr a), (''name'', JStr b), (''active'', JBool (c = ''Active''))])
   \<and> (exec rt (cmd_list mgr) (world s) = (Done out err2, w2)
    \<longrightarrow> p0_listWorkflows rt mgr s
        = (Inr out, \<lparr>world = w2, trace = trace s @ [Exec (cmd_list mgr) (Done out err2)]\<rparr>))"
proof (intro conjI impI)
  assume "exec rt (cmd_list_no_header mgr) (world s)
    = (Done (''id1  WorkflowA  Active'' @ [CHR 0x0A] @ ''id2  WorkflowB  Inactive'') err, w')"
  from listWorkflows_done [OF this]
  show "fst (listWorkflows rt mgr s)
        = Inr (JArr [JObj [(''id'', JStr ''id1''), (''name'', JStr ''WorkflowA''), (''active'', JBool True)],
                     JObj [(''id'', JStr ''id2''), (''name'', JStr ''WorkflowB''), (''active'', JBool False)]])"
    by (simp add: parse_line_def trim_def is_space_def numeral_2_eq_2)
next
  show "\<forall>a b c. column a \<and> column b \<and> column c \<longrightarrow>
         parse_line (a @ ''  '' @ b @ ''  '' @ c)
         = JObj [(''id'', JStr a), (''name'', JStr b), (''active'', JBool (c = ''Active''))]"
    using parse_three_columns by blast
next
  assume "exec rt (cmd_list mgr) (world s) = (Done out err2, w2)"
  then show "p0_listWorkflows rt mgr s
        = (Inr out, \<lparr>world = w2, trace = trace s @ [Exec (cmd_list mgr) (Done out err2)]\<rparr>)"
    by (rule p0_listWorkflows_returns_output)
qed

theorem list_operations_on_table_witness:
  "fst (listWorkflows (example_rt 9 [] (''id1  WorkflowA  Active'' @ [CHR 0x0A] @ ''id2  WorkflowB  Inactive''))
          (new_manager None) start_state)
   = Inr (JArr [JObj [(''id'', JStr ''id1''), (''name'', JStr ''WorkflowA''), (''active'', JBool True)],
                JObj [(''id'', JStr ''id2''), (''name'', JStr ''WorkflowB''), (''active'', JBool False)]])
   \<and> parse_line ''7  Nightly  Inactive''
     = JObj [(''id'', JStr ''7''), (''name'', JStr ''Nightly''), (''active'', JBool False)]
   \<and> p0_listWorkflows (example_rt 9 [] (''id1  WorkflowA  Active'' @ [CHR 0x0A] @ ''id2  WorkflowB  Inactive''))
          (new_manager None) start_state
     = (Inr (''id1  WorkflowA  Active'' @ [CHR 0x0A] @ ''id2  WorkflowB  Inactive''),
        \<lparr>world = 1,
         trace = [Exec ''docker exec n8n-container n8n list:workflow''
                    (Done (''id1  WorkflowA  Active'' @ [CHR 0x0A] @ ''id2  WorkflowB  Inactive'') [])]\<rparr>)"
proof -
  let ?table = "''id1  WorkflowA  Active'' @ [CHR 0x0A] @ ''id2  WorkflowB  Inactive''"
  let ?rt = "example_rt 9 [] ?table"
  have run: "exec ?rt (cmd_list_no_header (new_manager None)) (world start_state) = (Done ?table [], 1)"
    by (simp add: example_defs)
  have run0: "exec ?rt (cmd_list (new_manager None)) (world start_state) = (Done ?table [], 1)"
    by (simp add: example_defs)
  have cols: "column ''7'' \<and> column ''Nightly'' \<and> column ''Inactive''"
    by (simp add: column_def is_space_def)
  note inst = list_operations_on_table
    [where rt = ?rt and mgr = "new_manager None" and s = start_state and err = "[]" and w' = 1
       and out = ?table and ?err2.0 = "[]" and ?w2.0 = 1]
  have a: "fst (listWorkflows ?rt (new_manager None) start_state)
        = Inr (JArr [JObj [(''id'', JStr ''id1''), (''name'', JStr ''WorkflowA''), (''active'', JBool True)],
                     JObj [(''id'', JStr ''id2''), (''name'', JStr ''WorkflowB''), (''active'', JBool False)]])"
    using inst run by blast
  have b: "parse_line (''7'' @ ''  '' @ ''Nightly'' @ ''  '' @ ''Inactive'')
     = JObj [(''id'', JStr ''7''), (''name'', JStr ''Nightly''), (''active'', JBool (''Inactive'' = ''Active''))]"
    using inst cols by blast
  have c: "p0_listWorkflows ?rt (new_manager None) start_state
        = (Inr ?table, \<lparr>world = 1, trace = trace start_state
             @ [Exec (cmd_list (new_manager None)) (Done ?table [])]\<rparr>)"
    using inst run0 by blast
  from a b c show ?thesis
    by (simp add: start_state_def cmd_list_def new_manager_def)
qed

text \<open>
  C9. When the list command of \<open>src/index.js\<close> succeeds and its standard output is
  empty or white space only, \<open>listWorkflows\<close> returns one summary, not none: its \<open>id\<close> is
  the empty string, its \<open>name\<close> is \<open>undefined\<close> and its \<open>active\<close> flag is false.
\<close>

theorem list_workflows_blank_output:
  assumes "exec rt (cmd_list_no_header mgr) (world s) = (Done out err, w')"
    and "\<forall>c\<in>set out. is_space c"
  shows "fst (listWorkflows rt mgr s)
         = Inr (JArr [JObj [(''id'', JStr []), (''name'', JUndefined), (''active'', JBool False)]])"
  using listWorkflows_done [OF assms(1)] assms(2)
  by (simp add: parse_line_def trim_blank numeral_2_eq_2)

theorem list_workflows_blank_output_witness:
  "fst (listWorkflows (example_rt 9 [] ('' '' @ [CHR 0x0A] @ ''  '')) (new_manager None) start_state)
   = Inr (JArr [JObj [(''id'', JStr []), (''name'', JUndefined), (''active'', JBool False)]])"
proof -
  let ?rt = "example_rt 9 [] ('' '' @ [CHR 0x0A] @ ''  '')"
  have run: "exec ?rt (cmd_list_no_header (new_manager None)) (world start_state)
           = (Done ('' '' @ [CHR 0x0A] @ ''  '') [], 1)"
    by (simp add: example_defs)
  have blank: "\<forall>c\<in>set ('' '' @ [CHR 0x0A] @ ''  ''). is_space c"
    by (simp add: is_space_def)
  show ?thesis
    using list_workflows_blank_output [OF run blank] .
qed

section \<open>Updating a workflow\<close>

lemma p0_update_import_failed:
  assumes "p0_updateWorkflow rt mgr workflowId updateFile s = (r, s')"
    and "Exec (cmd_import mgr) (Failed m) \<in> set (events_since s s')"
  shows "r = Inr (''Error updating workflow: '' @ m)
         \<and> last (events_since s s') = Exec (cmd_import mgr) (Failed m)
         \<and> (\<forall>wid. cmd_activate mgr wid \<notin> set (commands (events_since s s')))
         \<and> cmd_restart mgr \<notin> set (commands (events_since s s'))"
  using assms unfolding p0_updateWorkflow_def
  by (auto elim!: try_catchE seqE p0_executeCommandE simp: cmd_distinct)

lemma update_import_failed:
  assumes "updateWorkflow rt mgr workflowId updateData s = (r, s')"
    and "Exec (cmd_import mgr) (Failed m) \<in> set (events_since s s')"
  shows "r = Inl (Error (''Failed to update workflow: Command failed: '' @ m))
         \<and> last (events_since s s') = Exec (cmd_import mgr) (Failed m)
         \<and> (\<forall>wid. cmd_activate mgr wid \<notin> set (commands (events_since s s')))
         \<and> cmd_restart mgr \<notin> set (commands (events_since s s'))"
  using assms unfolding updateWorkflow_def
  by (auto elim!: try_catchE seqE executeCommandE exec_asyncE simp: cmd_distinct)

text \<open>
  C2. In an update whose import command fails, of either file, the import is the last thing
  the update does: neither the activation command nor the restart command is run, and what
  the caller gets carries the message of the import failure (as the returned text
  \<open>Error updating workflow: ...\<close> in \<open>src/unnamed/part_000\<close>, as the thrown
  \<open>Failed to update workflow: Command failed: ...\<close> in \<open>src/index.js\<close>).
\<close>

theorem update_stops_at_failed_import:
  "(p0_updateWorkflow rt mgr workflowId updateFile s = (r, s')
      \<and> Exec (cmd_import mgr) (Failed m) \<in> set (events_since s s')
    \<longrightarrow> r = Inr (''Error updating workflow: '' @ m)
        \<and> last (events_since s s') = Exec (cmd_import mgr) (Failed m)
        \<and> (\<forall>wid. cmd_activate mgr wid \<notin> set (commands (events_since s s')))
        \<and> cmd_restart mgr \<notin> set (commands (events_since s s')))
   \<and> (updateWorkflow rt mgr workflowId updateData s = (q, s'')
      \<and> Exec (cmd_import mgr) (Failed m) \<in> set (events_since s s'')
    \<longrightarrow> q = Inl (Error (''Failed to update workflow: Command failed: '' @ m))
        \<and> last (events_since s s'') = Exec (cmd_import mgr) (Failed m)
        \<and> (\<forall>wid. cmd_activate mgr wid \<notin> set (commands (events_since s s'')))
        \<and> cmd_restart mgr \<notin> set (commands (events_since s s'')))"
  using p0_update_import_failed update_import_failed by blast

theorem update_stops_at_failed_import_witness:
  "p0_updateWorkflow (example_rt 2 ''n8n: file is not valid JSON'' ''ok'') (new_manager None)
       (JStr ''wf42'') (JStr ''/tmp/new.json'') start_state
   = (Inr ''Error updating workflow: n8n: file is not valid JSON'',
      \<lparr>world = 3,
       trace = [Exec ''docker exec n8n-container n8n export:workflow --id=wf42 --output=/tmp/backup-wf42.json''
                  (Done ''ok'' []),
                Exec ''docker cp /tmp/new.json n8n-container:/tmp/update.json'' (Done ''ok'' []),
                Exec ''docker exec n8n-container n8n import:workflow --input=/tmp/update.json''
                  (Failed ''n8n: file is not valid JSON'')]\<rparr>)
   \<and> updateWorkflow (example_rt 2 ''n8n: file is not valid JSON'' ''ok'') (new_manager None)
       (JStr ''wf42'') (JObj [(''name'', JStr ''Nightly'')]) start_state
   = (Inl (Error ''Failed to update workflow: Command failed: n8n: file is not valid JSON''),
      \<lparr>world = 3,
       trace = [Exec ''echo '{\"name\":\"Nightly\"}' > /tmp/workflow-update-1710000000000.json''
                  (Done ''ok'' []),
                Exec ''docker cp /tmp/workflow-update-1710000000000.json n8n-container:/tmp/update.json''
                  (Done ''ok'' []),
                Exec ''docker exec n8n-container n8n import:workflow --input=/tmp/update.json''
                  (Failed ''n8n: file is not valid JSON'')]\<rparr>)
   \<and> cmd_restart (new_manager None)
       \<notin> set [''docker exec n8n-container n8n export:workflow --id=wf42 --output=/tmp/backup-wf42.json'',
               ''docker cp /tmp/new.json n8n-container:/tmp/update.json'',
               ''docker exec n8n-container n8n import:workflow --input=/tmp/update.json'']"
proof -
  let ?rt = "example_rt 2 ''n8n: file is not valid JSON'' ''ok''"
  let ?mgr = "new_manager None"
  let ?s1 = "\<lparr>world = 3::nat,
       trace = [Exec ''docker exec n8n-container n8n export:workflow --id=wf42 --output=/tmp/backup-wf42.json''
                  (Done ''ok'' []),
                Exec ''docker cp /tmp/new.json n8n-container:/tmp/update.json'' (Done ''ok'' []),
                Exec ''docker exec n8n-container n8n import:workflow --input=/tmp/update.json''
                  (Failed ''n8n: file is not valid JSON'')]\<rparr>"
  let ?s2 = "\<lparr>world = 3::nat,
       trace = [Exec ''echo '{\"name\":\"Nightly\"}' > /tmp/workflow-update-1710000000000.json''
                  (Done ''ok'' []),
                Exec ''docker cp /tmp/workflow-update-1710000000000.json n8n-container:/tmp/update.json''
                  (Done ''ok'' []),
                Exec ''docker exec n8n-container n8n import:workflow --input=/tmp/update.json''
                  (Failed ''n8n: file is not valid JSON'')]\<rparr>"
  have p0: "p0_updateWorkflow ?rt ?mgr (JStr ''wf42'') (JStr ''/tmp/new.json'') start_state
            = (Inr ''Error updating workflow: n8n: file is not valid JSON'', ?s1)"
    by (simp add: p0_updateWorkflow_def run_defs example_defs cmd_defs)
  have js: "updateWorkflow ?rt ?mgr (JStr ''wf42'') (JObj [(''name'', JStr ''Nightly'')]) start_state
            = (Inl (Error ''Failed to update workflow: Command failed: n8n: file is not valid JSON''), ?s2)"
    by (simp add: updateWorkflow_def run_defs example_defs cmd_defs tmp_file_def
        stringify_in_template_def show_nat.simps digit_def)
  have h1: "Exec (cmd_import ?mgr) (Failed ''n8n: file is not valid JSON'') \<in> set (events_since start_state ?s1)"
    by (simp add: events_since_def start_state_def cmd_import_def new_manager_def)
  have h2: "Exec (cmd_import ?mgr) (Failed ''n8n: file is not valid JSON'') \<in> set (events_since start_state ?s2)"
    by (simp add: events_since_def start_state_def cmd_import_def new_manager_def)
  from update_stops_at_failed_import
    [of ?rt ?mgr "JStr ''wf42''" "JStr ''/tmp/new.json''" start_state
        "Inr ''Error updating workflow: n8n: file is not valid JSON''" ?s1
        "''n8n: file is not valid JSON''" "JObj [(''name'', JStr ''Nightly'')]"
        "Inl (Error ''Failed to update workflow: Command failed: n8n: file is not valid JSON'')" ?s2]
    p0 js h1 h2
  have "cmd_restart ?mgr \<notin> set (commands (events_since start_state ?s1))"
    by blast
  then have "cmd_restart ?mgr
       \<notin> set [''docker exec n8n-container n8n export:workflow --id=wf42 --output=/tmp/backup-wf42.json'',
               ''docker cp /tmp/new.json n8n-container:/tmp/update.json'',
               ''docker exec n8n-container n8n import:workflow --input=/tmp/update.json'']"
    by (simp add: events_since_def start_state_def)
  with p0 js show ?thesis by blast
qed

section \<open>Restarting the container\<close>

text \<open>
  C8. When the restart command succeeds, \<open>restartContainer\<close> runs that one command, then
  awaits a timer of fixed length (10000 ms in \<open>src/index.js\<close>, 20000 ms in
  \<open>src/unnamed/part_000\<close>), and only then returns, reporting success; no other command
  (no probe of readiness) is run in between.
\<close>

theorem restart_waits_then_reports_success:
  assumes "exec rt (cmd_restart mgr) (world s) = (Done out err, w')"
  shows "restartContainer rt mgr s
         = (Inr (JObj [(''success'', JBool True), (''message'', JStr ''Container restarted successfully'')]),
            \<lparr>world = sleep rt 10000 w',
             trace = trace s @ Exec (cmd_restart mgr) (Done out err) # stderr_events err @ [Wait 10000]\<rparr>)
         \<and> p0_restartContainer rt mgr s
         = (Inr ''Container restarted successfully'',
            \<lparr>world = sleep rt 20000 w',
             trace = trace s @ [Exec (cmd_restart mgr) (Done out err), Wait 20000]\<rparr>)"
  using assms
  by (simp add: restartContainer_def p0_restartContainer_def executeCommand_done p0_executeCommand_done
      seq_def try_catch_def ok_def delay_def)

theorem restart_waits_then_reports_success_witness:
  "restartContainer (example_rt 9 [] ''n8n-container'') (new_manager None) start_state
   = (Inr (JObj [(''success'', JBool True), (''message'', JStr ''Container restarted successfully'')]),
      \<lparr>world = 1, trace = [Exec ''docker restart n8n-container'' (Done ''n8n-container'' []), Wait 10000]\<rparr>)
   \<and> p0_restartContainer (example_rt 9 [] ''n8n-container'') (new_manager None) start_state
   = (Inr ''Container restarted successfully'',
      \<lparr>world = 1, trace = [Exec ''docker restart n8n-container'' (Done ''n8n-container'' []), Wait 20000]\<rparr>)"
proof -
  let ?rt = "example_rt 9 [] ''n8n-container''"
  have run: "exec ?rt (cmd_restart (new_manager None)) (world start_state) = (Done ''n8n-container'' [], 1)"
    by (simp add: example_defs)
  show ?thesis
    using restart_waits_then_reports_success [OF run]
    by (simp add: example_defs cmd_restart_def stderr_events_def)
qed

section \<open>Troubleshooting\<close>

text \<open>
  C3. When the status command succeeds, the search for the workflow fails and the logs
  command succeeds, \<open>troubleshoot\<close> of \<open>src/index.js\<close> does what the claim says: it runs
  the three commands and returns the three entries Container Status, Workflow Status with
  the text \<open>Workflow not found\<close>, and Recent Logs, in this order. On the same commands
  \<open>troubleshoot\<close> of \<open>src/unnamed/part_000\<close>, which has no \<open>try\<close> around the search, does
  not: the failed search is its last command, the logs are never fetched, and what it
  returns is the text \<open>Error during troubleshooting:\<close> with the message of the search, with
  no entry at all.
\<close>

theorem p0_troubleshoot_stops_at_failed_search:
  assumes "exec rt (cmd_status mgr) (world s) = (Done o1 e1, w1)"
    and "to_string workflowId = Inr wid"
    and "exec rt (cmd_find mgr wid) w1 = (Failed m, w2)"
    and "exec rt (cmd_logs mgr) w2 = (Done o3 e3, w3)"
  shows "troubleshoot rt mgr workflowId s
         = (Inr (JArr [JObj [(''check'', JStr ''Container Status''), (''result'', JStr (trim o1))],
                       JObj [(''check'', JStr ''Workflow Status''), (''result'', JStr ''Workflow not found'')],
                       JObj [(''check'', JStr ''Recent Logs''), (''result'', JStr o3)]]),
            \<lparr>world = w3,
             trace = trace s @ Exec (cmd_status mgr) (Done o1 e1) # stderr_events e1
                     @ Exec (cmd_find mgr wid) (Failed m)
                       # Exec (cmd_logs mgr) (Done o3 e3) # stderr_events e3\<rparr>)
         \<and> p0_troubleshoot rt mgr workflowId s
         = (Inr (''Error during troubleshooting: '' @ m),
            \<lparr>world = w2,
             trace = trace s @ [Exec (cmd_status mgr) (Done o1 e1), Exec (cmd_find mgr wid) (Failed m)]\<rparr>)"
  using assms
  by (simp add: troubleshoot_def p0_troubleshoot_def check_entry_def
      executeCommand_done executeCommand_failed p0_executeCommand_done p0_executeCommand_failed
      seq_def try_catch_def ok_def lift_def throw_def)

theorem p0_troubleshoot_stops_at_failed_search_witness:
  "troubleshoot
     (example_rt 1 (''Command failed: docker exec n8n-container n8n list:workflow | grep wf42'' @ [CHR 0x0A])
        ''Up 2 hours'')
     (new_manager None) (JStr ''wf42'') start_state
   = (Inr (JArr [JObj [(''check'', JStr ''Container Status''), (''result'', JStr ''Up 2 hours'')],
                 JObj [(''check'', JStr ''Workflow Status''), (''result'', JStr ''Workflow not found'')],
                 JObj [(''check'', JStr ''Recent Logs''), (''result'', JStr ''Up 2 hours'')]]),
      \<lparr>world = 3,
       trace = [Exec ''docker ps --filter name=n8n-container --format \"{{.Status}}\"'' (Done ''Up 2 hours'' []),
                Exec ''docker exec n8n-container n8n list:workflow | grep wf42''
                  (Failed (''Command failed: docker exec n8n-container n8n list:workflow | grep wf42''
                           @ [CHR 0x0A])),
                Exec ''docker logs --tail 20 n8n-container'' (Done ''Up 2 hours'' [])]\<rparr>)
   \<and> p0_troubleshoot
     (example_rt 1 (''Command failed: docker exec n8n-container n8n list:workflow | grep wf42'' @ [CHR 0x0A])
        ''Up 2 hours'')
     (new_manager None) (JStr ''wf42'') start_state
   = (Inr (''Error during troubleshooting: Command failed: docker exec n8n-container n8n list:workflow | grep wf42''
           @ [CHR 0x0A]),
      \<lparr>world = 2,
       trace = [Exec ''docker ps --filter name=n8n-container --format \"{{.Status}}\"'' (Done ''Up 2 hours'' []),
                Exec ''docker exec n8n-container n8n list:workflow | grep wf42''
                  (Failed (''Command failed: docker exec n8n-container n8n list:workflow | grep wf42''
                           @ [CHR 0x0A]))]\<rparr>)"
proof -
  let ?m = "''Command failed: docker exec n8n-container n8n list:workflow | grep wf42'' @ [CHR 0x0A]"
  let ?rt = "example_rt 1 ?m ''Up 2 hours''"
  let ?mgr = "new_manager None"
  have a: "exec ?rt (cmd_status ?mgr) (world start_state) = (Done ''Up 2 hours'' [], 1)"
    by (simp add: example_defs)
  have b: "to_string (JStr ''wf42'') = Inr ''wf42''"
    by simp
  have c: "exec ?rt (cmd_find ?mgr ''wf42'') 1 = (Failed ?m, 2)"
    by (simp add: example_defs)
  have d: "exec ?rt (cmd_logs ?mgr) 2 = (Done ''Up 2 hours'' [], 3)"
    by (simp add: example_defs)
  show ?thesis
    using p0_troubleshoot_stops_at_failed_search [OF a b c d]
    by (simp add: trim_def is_space_def stderr_events_def start_state_def cmd_defs new_manager_def)
qed

section \<open>The order of the steps of an update\<close>

lemma p0_update_order:
  assumes "p0_updateWorkflow rt mgr workflowId updateFile s = (r, s')"
    and "to_string workflowId = Inr wid" and "to_string updateFile = Inr file"
  shows "prefix (trace s) (trace s')
         \<and> commands (events_since s s') \<noteq> []
         \<and> prefix (commands (events_since s s'))
              [cmd_export_one mgr wid, cmd_copy_in file mgr, cmd_import mgr, cmd_activate mgr wid,
               cmd_restart mgr]
         \<and> \<not> list_ex failed (butlast (events_since s s'))
         \<and> (r = Inr ''Workflow updated successfully'' \<longleftrightarrow>
              \<not> list_ex failed (events_since s s'))
         \<and> (\<not> list_ex failed (events_since s s') \<longrightarrow>
              commands (events_since s s')
              = [cmd_export_one mgr wid, cmd_copy_in file mgr, cmd_import mgr, cmd_activate mgr wid,
                 cmd_restart mgr])"
  using assms unfolding p0_updateWorkflow_def
  by (auto elim!: try_catchE seqE p0_executeCommandE)

lemma update_order:
  assumes "updateWorkflow rt mgr workflowId updateData s = (r, s')"
  shows "prefix (trace s) (trace s')
         \<and> commands (events_since s s') \<noteq> []
         \<and> prefix (commands (events_since s s'))
              [cmd_write_payload (stringify_in_template rt updateData) (tmp_file (date_now rt (world s))),
               cmd_copy_in (tmp_file (date_now rt (world s))) mgr, cmd_import mgr,
               cmd_remove (tmp_file (date_now rt (world s)))]
         \<and> \<not> list_ex failed (butlast (events_since s s'))
         \<and> ((\<exists>v. r = Inr v) \<longleftrightarrow> \<not> list_ex failed (events_since s s'))
         \<and> (\<not> list_ex failed (events_since s s') \<longrightarrow>
              commands (events_since s s')
              = [cmd_write_payload (stringify_in_template rt updateData) (tmp_file (date_now rt (world s))),
                 cmd_copy_in (tmp_file (date_now rt (world s))) mgr, cmd_import mgr,
                 cmd_remove (tmp_file (date_now rt (world s)))])"
  using assms unfolding updateWorkflow_def
  by (auto elim!: try_catchE seqE executeCommandE exec_asyncE simp: butlast_append)


lemma update_runs_no_export:
  assumes "prefix cs [cmd_write_payload json tmp, cmd_copy_in tmp mgr, cmd_import mgr, cmd_remove tmp]"
  shows "cmd_export_one mgr w \<notin> set cs \<and> cmd_activate mgr w \<notin> set cs \<and> cmd_restart mgr \<notin> set cs"
proof -
  have "set cs \<subseteq> {cmd_write_payload json tmp, cmd_copy_in tmp mgr, cmd_import mgr, cmd_remove tmp}"
    using set_mono_prefix [OF assms] by simp
  moreover have "cmd_export_one mgr w
      \<notin> {cmd_write_payload json tmp, cmd_copy_in tmp mgr, cmd_import mgr, cmd_remove tmp}"
    using cmd_export_one_distinct [of mgr w] cmd_import_distinct(1) [of mgr w] by auto
  moreover have "cmd_activate mgr w
      \<notin> {cmd_write_payload json tmp, cmd_copy_in tmp mgr, cmd_import mgr, cmd_remove tmp}"
    using cmd_activate_distinct [of mgr w] by auto
  moreover have "cmd_restart mgr
      \<notin> {cmd_write_payload json tmp, cmd_copy_in tmp mgr, cmd_import mgr, cmd_remove tmp}"
    using cmd_restart_distinct [of mgr] by auto
  ultimately show ?thesis
    by blast
qed

text \<open>
  C4. An update of \<open>src/unnamed/part_000\<close> keeps the order of the claim: it runs a non-empty
  initial part of the sequence export of the current workflow, copy of the update file into
  the container, import, activation by id, restart, each command only after all those
  before it succeeded (so the export precedes the import), and it returns
  \<open>Workflow updated successfully\<close> exactly when no command failed, in which case all five
  ran. An update of \<open>src/index.js\<close> does not: under the same rule it runs an initial part of
  the sequence write of the inline payload to a temporary file, copy of that file into the
  container, import, removal of the temporary file; so whatever the workflow, its import is
  preceded by no export of the current workflow and followed by no activation and no
  restart.
\<close>

theorem update_steps_in_order:
  "(p0_updateWorkflow rt mgr workflowId updateFile s = (r, s')
      \<and> to_string workflowId = Inr wid \<and> to_string updateFile = Inr file
    \<longrightarrow> prefix (trace s) (trace s')
        \<and> commands (events_since s s') \<noteq> []
        \<and> prefix (commands (events_since s s'))
             [cmd_export_one mgr wid, cmd_copy_in file mgr, cmd_import mgr, cmd_activate mgr wid,
              cmd_restart mgr]
        \<and> \<not> list_ex failed (butlast (events_since s s'))
        \<and> (r = Inr ''Workflow updated successfully'' \<longleftrightarrow> \<not> list_ex failed (events_since s s'))
        \<and> (\<not> list_ex failed (events_since s s') \<longrightarrow>
             commands (events_since s s')
             = [cmd_export_one mgr wid, cmd_copy_in file mgr, cmd_import mgr, cmd_activate mgr wid,
                cmd_restart mgr]))
   \<and> (updateWorkflow rt mgr workflowId updateData s = (q, s'')
    \<longrightarrow> prefix (trace s) (trace s'')
        \<and> commands (events_since s s'') \<noteq> []
        \<and> prefix (commands (events_since s s''))
             [cmd_write_payload (stringify_in_template rt updateData) (tmp_file (date_now rt (world s))),
              cmd_copy_in (tmp_file (date_now rt (world s))) mgr, cmd_import mgr,
              cmd_remove (tmp_file (date_now rt (world s)))]
        \<and> \<not> list_ex failed (butlast (events_since s s''))
        \<and> ((\<exists>v. q = Inr v) \<longleftrightarrow> \<not> list_ex failed (events_since s s''))
        \<and> (\<not> list_ex failed (events_since s s'') \<longrightarrow>
             commands (events_since s s'')
             = [cmd_write_payload (stringify_in_template rt updateData) (tmp_file (date_now rt (world s))),
                cmd_copy_in (tmp_file (date_now rt (world s))) mgr, cmd_import mgr,
                cmd_remove (tmp_file (date_now rt (world s)))])
        \<and> (\<forall>w. cmd_export_one mgr w \<notin> set (commands (events_since s s''))
               \<and> cmd_activate mgr w \<notin> set (commands (events_since s s'')))
        \<and> cmd_restart mgr \<notin> set (commands (events_since s s'')))"
proof (rule conjI)
  show "p0_updateWorkflow rt mgr workflowId updateFile s = (r, s')
      \<and> to_string workflowId = Inr wid \<and> to_string updateFile = Inr file
    \<longrightarrow> prefix (trace s) (trace s')
        \<and> commands (events_since s s') \<noteq> []
        \<and> prefix (commands (events_since s s'))
             [cmd_export_one mgr wid, cmd_copy_in file mgr, cmd_import mgr, cmd_activate mgr wid,
              cmd_restart mgr]
        \<and> \<not> list_ex failed (butlast (events_since s s'))
        \<and> (r = Inr ''Workflow updated successfully'' \<longleftrightarrow> \<not> list_ex failed (events_since s s'))
        \<and> (\<not> list_ex failed (events_since s s') \<longrightarrow>
             commands (events_since s s')
             = [cmd_export_one mgr wid, cmd_copy_in file mgr, cmd_import mgr, cmd_activate mgr wid,
                cmd_restart mgr])"
    using p0_update_order [of rt mgr workflowId updateFile s r s' wid "file"] by blast
  show "updateWorkflow rt mgr workflowId updateData s = (q, s'')
    \<longrightarrow> prefix (trace s) (trace s'')
        \<and> commands (events_since s s'') \<noteq> []
        \<and> prefix (commands (events_since s s''))
             [cmd_write_payload (stringify_in_template rt updateData) (tmp_file (date_now rt (world s))),
              cmd_copy_in (tmp_file (date_now rt (world s))) mgr, cmd_import mgr,
              cmd_remove (tmp_file (date_now rt (world s)))]
        \<and> \<not> list_ex failed (butlast (events_since s s''))
        \<and> ((\<exists>v. q = Inr v) \<longleftrightarrow> \<not> list_ex failed (events_since s s''))
        \<and> (\<not> list_ex failed (events_since s s'') \<longrightarrow>
             commands (events_since s s'')
             = [cmd_write_payload (stringify_in_template rt updateData) (tmp_file (date_now rt (world s))),
                cmd_copy_in (tmp_file (date_now rt (world s))) mgr, cmd_import mgr,
                cmd_remove (tmp_file (date_now rt (world s)))])
        \<and> (\<forall>w. cmd_export_one mgr w \<notin> set (commands (events_since s s''))
               \<and> cmd_activate mgr w \<notin> set (commands (events_since s s'')))
        \<and> cmd_restart mgr \<notin> set (commands (events_since s s''))"
  proof (rule impI)
    assume run: "updateWorkflow rt mgr workflowId updateData s = (q, s'')"
    note order = update_order [OF run]
    have pre: "prefix (commands (events_since s s''))
             [cmd_write_payload (stringify_in_template rt updateData) (tmp_file (date_now rt (world s))),
              cmd_copy_in (tmp_file (date_now rt (world s))) mgr, cmd_import mgr,
              cmd_remove (tmp_file (date_now rt (world s)))]"
      using order by blast
    have none: "cmd_export_one mgr w \<notin> set (commands (events_since s s''))
        \<and> cmd_activate mgr w \<notin> set (commands (events_since s s''))
        \<and> cmd_restart mgr \<notin> set (commands (events_since s s''))" for w
      using pre by (rule update_runs_no_export)
    from none have all: "\<forall>w. cmd_export_one mgr w \<notin> set (commands (events_since s s''))
               \<and> cmd_activate mgr w \<notin> set (commands (events_since s s''))"
      by blast
    from none have restart: "cmd_restart mgr \<notin> set (commands (events_since s s''))"
      by blast
    from order all restart
    show "prefix (trace s) (trace s'')
        \<and> commands (events_since s s'') \<noteq> []
        \<and> prefix (commands (events_since s s''))
             [cmd_write_payload (stringify_in_template rt updateData) (tmp_file (date_now rt (world s))),
              cmd_copy_in (tmp_file (date_now rt (world s))) mgr, cmd_import mgr,
              cmd_remove (tmp_file (date_now rt (world s)))]
        \<and> \<not> list_ex failed (butlast (events_since s s''))
        \<and> ((\<exists>v. q = Inr v) \<longleftrightarrow> \<not> list_ex failed (events_since s s''))
        \<and> (\<not> list_ex failed (events_since s s'') \<longrightarrow>
             commands (events_since s s'')
             = [cmd_write_payload (stringify_in_template rt updateData) (tmp_file (date_now rt (world s))),
                cmd_copy_in (tmp_file (date_now rt (world s))) mgr, cmd_import mgr,
                cmd_remove (tmp_file (date_now rt (world s)))])
        \<and> (\<forall>w. cmd_export_one mgr w \<notin> set (commands (events_since s s''))
               \<and> cmd_activate mgr w \<notin> set (commands (events_since s s'')))
        \<and> cmd_restart mgr \<notin> set (commands (events_since s s''))"
      by simp
  qed
qed

theorem update_steps_in_order_witness:
  "p0_updateWorkflow (example_rt 9 [] ''ok'') (new_manager None) (JStr ''wf42'') (JStr ''/tmp/new.json'')
     start_state
   = (Inr ''Workflow updated successfully'',
      \<lparr>world = 5,
       trace = [Exec ''docker exec n8n-container n8n export:workflow --id=wf42 --output=/tmp/backup-wf42.json''
                  (Done ''ok'' []),
                Exec ''docker cp /tmp/new.json n8n-container:/tmp/update.json'' (Done ''ok'' []),
                Exec ''docker exec n8n-container n8n import:workflow --input=/tmp/update.json''
                  (Done ''ok'' []),
                Exec ''docker exec n8n-container n8n update:workflow --id=wf42 --active=true''
                  (Done ''ok'' []),
                Exec ''docker restart n8n-container'' (Done ''ok'' [])]\<rparr>)
   \<and> updateWorkflow (example_rt 9 [] ''ok'') (new_manager None) (JStr ''wf42'')
       (JObj [(''name'', JStr ''Nightly'')]) start_state
   = (Inr (JObj [(''success'', JBool True), (''message'', JStr ''Workflow updated successfully'')]),
      \<lparr>world = 4,
       trace = [Exec ''echo '{\"name\":\"Nightly\"}' > /tmp/workflow-update-1710000000000.json''
                  (Done ''ok'' []),
                Exec ''docker cp /tmp/workflow-update-1710000000000.json n8n-container:/tmp/update.json''
                  (Done ''ok'' []),
                Exec ''docker exec n8n-container n8n import:workflow --input=/tmp/update.json''
                  (Done ''ok'' []),
                Exec ''rm /tmp/workflow-update-1710000000000.json'' (Done ''ok'' [])]\<rparr>)
   \<and> ''docker exec n8n-container n8n export:workflow --id=wf42 --output=/tmp/backup-wf42.json''
     \<notin> set (commands (events_since start_state
          (snd (updateWorkflow (example_rt 9 [] ''ok'') (new_manager None) (JStr ''wf42'')
                  (JObj [(''name'', JStr ''Nightly'')]) start_state))))
   \<and> ''docker exec n8n-container n8n update:workflow --id=wf42 --active=true''
     \<notin> set (commands (events_since start_state
          (snd (updateWorkflow (example_rt 9 [] ''ok'') (new_manager None) (JStr ''wf42'')
                  (JObj [(''name'', JStr ''Nightly'')]) start_state))))
   \<and> ''docker restart n8n-container''
     \<notin> set (commands (events_since start_state
          (snd (updateWorkflow (example_rt 9 [] ''ok'') (new_manager None) (JStr ''wf42'')
                  (JObj [(''name'', JStr ''Nightly'')]) start_state))))"
proof -
  let ?rt = "example_rt 9 [] ''ok''"
  let ?mgr = "new_manager None"
  let ?s1 = "\<lparr>world = 5::nat,
       trace = [Exec ''docker exec n8n-container n8n export:workflow --id=wf42 --output=/tmp/backup-wf42.json''
                  (Done ''ok'' []),
                Exec ''docker cp /tmp/new.json n8n-container:/tmp/update.json'' (Done ''ok'' []),
                Exec ''docker exec n8n-container n8n import:workflow --input=/tmp/update.json''
                  (Done ''ok'' []),
                Exec ''docker exec n8n-container n8n update:workflow --id=wf42 --active=true''
                  (Done ''ok'' []),
                Exec ''docker restart n8n-container'' (Done ''ok'' [])]\<rparr>"
  let ?s2 = "\<lparr>world = 4::nat,
       trace = [Exec ''echo '{\"name\":\"Nightly\"}' > /tmp/workflow-update-1710000000000.json''
                  (Done ''ok'' []),
                Exec ''docker cp /tmp/workflow-update-1710000000000.json n8n-container:/tmp/update.json''
                  (Done ''ok'' []),
                Exec ''docker exec n8n-container n8n import:workflow --input=/tmp/update.json''
                  (Done ''ok'' []),
                Exec ''rm /tmp/workflow-update-1710000000000.json'' (Done ''ok'' [])]\<rparr>"
  let ?q = "Inr (JObj [(''success'', JBool True), (''message'', JStr ''Workflow updated successfully'')])"
  have p0: "p0_updateWorkflow ?rt ?mgr (JStr ''wf42'') (JStr ''/tmp/new.json'') start_state
            = (Inr ''Workflow updated successfully'', ?s1)"
    by (simp add: p0_updateWorkflow_def run_defs example_defs cmd_defs)
  have js: "updateWorkflow ?rt ?mgr (JStr ''wf42'') (JObj [(''name'', JStr ''Nightly'')]) start_state
            = (?q, ?s2)"
    by (simp add: updateWorkflow_def run_defs example_defs cmd_defs tmp_file_def
        stringify_in_template_def show_nat.simps digit_def)
  have ids: "to_string (JStr ''wf42'') = Inr ''wf42'' \<and> to_string (JStr ''/tmp/new.json'') = Inr ''/tmp/new.json''"
    by simp
  note inst1 = update_steps_in_order
    [of ?rt ?mgr "JStr ''wf42''" "JStr ''/tmp/new.json''" start_state
        "Inr ''Workflow updated successfully''" ?s1 "''wf42''" "''/tmp/new.json''"]
  note inst2 = update_steps_in_order
    [where rt = ?rt and mgr = ?mgr and s = start_state and workflowId = "JStr ''wf42''"
       and updateData = "JObj [(''name'', JStr ''Nightly'')]" and q = ?q and s'' = ?s2]
  have a: "prefix (trace start_state) (trace ?s1)"
    using inst1 p0 ids by blast
  have b: "cmd_export_one ?mgr ''wf42'' \<notin> set (commands (events_since start_state ?s2))
      \<and> cmd_activate ?mgr ''wf42'' \<notin> set (commands (events_since start_state ?s2))
      \<and> cmd_restart ?mgr \<notin> set (commands (events_since start_state ?s2))"
    using inst2 js by blast
  have c: "cmd_export_one ?mgr ''wf42''
           = ''docker exec n8n-container n8n export:workflow --id=wf42 --output=/tmp/backup-wf42.json''"
    "cmd_activate ?mgr ''wf42'' = ''docker exec n8n-container n8n update:workflow --id=wf42 --active=true''"
    "cmd_restart ?mgr = ''docker restart n8n-container''"
    by (simp_all add: cmd_defs new_manager_def)
  from p0 js a b show ?thesis
    unfolding c by (simp del: set_simps)
qed

section \<open>Dispatch\<close>

lemma seq_assoc: "seq (seq m f) g = seq m (\<lambda>x. seq (f x) g)"
  by (rule ext) (simp add: seq_def split: prod.split sum.split)

lemma respond_handler:
  "try_catch
     (seq operation (\<lambda>v. ok (json_text rt v)))
     (\<lambda>error.
        seq (emit (ConsoleErrorObj ''Tool execution error:'' error)) (\<lambda>_.
        ok (error_result error)))
   = respond rt operation"
  by (rule ext)
    (simp add: respond_def try_catch_def seq_def ok_def emit_apply json_text_def error_result_def
      split: prod.split sum.split)

lemma call_tool_unknown:
  assumes "name \<notin> {''list_workflows'', ''update_workflow'', ''restart_container'', ''backup_workflows'',
                      ''troubleshoot''}"
  shows "call_tool rt mgr name args s
         = (Inr \<lparr>content = [TextContent (''Error: Unknown tool: '' @ name)], isError = Some True\<rparr>,
            \<lparr>world = world s,
             trace = trace s @ [ConsoleErrorObj ''Tool execution error:'' (Error (''Unknown tool: '' @ name))]\<rparr>)"
  using assms
  by (simp add: call_tool_def try_catch_def seq_def throw_def emit_apply ok_def error_result_def)

lemma call_tool_routes:
  "call_tool rt mgr ''list_workflows'' args = respond rt (listWorkflows rt mgr)"
  "call_tool rt mgr ''update_workflow'' args
   = respond rt (seq (lift (get_prop args ''workflowId'')) (\<lambda>workflowId.
                 seq (lift (get_prop args ''updateData'')) (\<lambda>updateData.
                 updateWorkflow rt mgr workflowId updateData)))"
  "call_tool rt mgr ''restart_container'' args = respond rt (restartContainer rt mgr)"
  "call_tool rt mgr ''backup_workflows'' args = respond rt (backupWorkflows rt mgr)"
  "call_tool rt mgr ''troubleshoot'' args
   = respond rt (seq (lift (get_prop args ''workflowId'')) (\<lambda>workflowId.
                 troubleshoot rt mgr workflowId))"
  by (simp_all add: call_tool_def seq_assoc [symmetric] respond_handler)

lemma p0_handleRequest_unknown:
  assumes "destructure request = Inr (method, params)"
    and "method \<notin> JStr ` {''list-workflows'', ''update-workflow'', ''restart-container'',
                            ''backup-workflows'', ''troubleshoot''}"
  shows "p0_handleRequest rt mgr request s = (Inr ''Unknown command'', s)"
  using assms
  by (simp add: p0_handleRequest_def seq_def lift_def ok_def)

lemma p0_on_data_unknown:
  assumes "json_parse rt data = Inr request"
    and "destructure request = Inr (method, params)"
    and "method \<notin> JStr ` {''list-workflows'', ''update-workflow'', ''restart-container'',
                            ''backup-workflows'', ''troubleshoot''}"
  shows "p0_on_data rt mgr data s
         = (Inr (),
            \<lparr>world = world s,
             trace = trace s
               @ [ConsoleLog (json_stringify rt (JObj [(''result'', JStr ''Unknown command'')]) 0)]\<rparr>)"
  using assms(1)
  by (simp add: p0_on_data_def try_catch_def seq_def lift_def emit_apply result_line_def
      p0_handleRequest_unknown [OF assms(2,3)])

lemma p0_handleRequest_routes:
  "destructure request = Inr (JStr ''list-workflows'', params) \<Longrightarrow>
     p0_handleRequest rt mgr request = p0_listWorkflows rt mgr"
  "destructure request = Inr (JStr ''update-workflow'', params) \<Longrightarrow>
     p0_handleRequest rt mgr request
     = seq (lift (get_prop params ''id'')) (\<lambda>i.
       seq (lift (get_prop params ''file'')) (\<lambda>f. p0_updateWorkflow rt mgr i f))"
  "destructure request = Inr (JStr ''restart-container'', params) \<Longrightarrow>
     p0_handleRequest rt mgr request = p0_restartContainer rt mgr"
  "destructure request = Inr (JStr ''backup-workflows'', params) \<Longrightarrow>
     p0_handleRequest rt mgr request = p0_backupWorkflows rt mgr"
  "destructure request = Inr (JStr ''troubleshoot'', params) \<Longrightarrow>
     p0_handleRequest rt mgr request
     = seq (lift (get_prop params ''workflow'')) (\<lambda>w. p0_troubleshoot rt mgr w)"
  by (rule ext, simp add: p0_handleRequest_def seq_def lift_def)+

text \<open>
  A request to \<open>src/unnamed/part_000\<close> for a method that does not exist: \<open>handleRequest\<close>
  returns the text \<open>Unknown command\<close> as it returns the text of an operation, and the
  listener writes it to standard output as a result. Nothing is thrown and no error
  object is written.
\<close>

theorem p0_unknown_method_counterexample:
  "json_parse requests_rt ''{\"method\":\"delete-workflow\"}''
   = Inr (JObj [(''method'', JStr ''delete-workflow'')])
   \<and> p0_handleRequest requests_rt (new_manager None) (JObj [(''method'', JStr ''delete-workflow'')])
       \<lparr>world = 0, trace = []\<rparr>
   = (Inr ''Unknown command'', \<lparr>world = 0, trace = []\<rparr>)
   \<and> p0_on_data requests_rt (new_manager None) ''{\"method\":\"delete-workflow\"}''
       \<lparr>world = 0, trace = []\<rparr>
   = (Inr (), \<lparr>world = 0, trace = [ConsoleLog ''{\"result\":\"Unknown command\"}'']\<rparr>)"
  by (simp add: p0_on_data_def p0_handleRequest_def destructure_def result_line_def
      run_defs example_defs requests_rt_def example_parse_requests_def)

text \<open>
  C5, amended. A call or request whose name is one of the five runs exactly the one
  operation of that name: in \<open>src/index.js\<close> the call is the reply to that operation, in
  \<open>src/unnamed/part_000\<close> the request is that operation. A name that is none of the five
  runs no command in either file. In \<open>src/index.js\<close> the \<open>switch\<close> throws
  \<open>Unknown tool: name\<close>, which the handler logs and returns as an error reply: the text
  \<open>Error: Unknown tool: name\<close> with \<open>isError\<close> true. In \<open>src/unnamed/part_000\<close> nothing is
  thrown: \<open>handleRequest\<close> returns the text \<open>Unknown command\<close>, and the listener writes
  the object with the field \<open>result\<close> holding that text to standard output.
\<close>

theorem dispatch_routes_known_and_rejects_unknown:
  "(name \<notin> {''list_workflows'', ''update_workflow'', ''restart_container'', ''backup_workflows'',
              ''troubleshoot''} \<longrightarrow>
      call_tool rt mgr name args s
      = (Inr \<lparr>content = [TextContent (''Error: Unknown tool: '' @ name)], isError = Some True\<rparr>,
         \<lparr>world = world s,
          trace = trace s @ [ConsoleErrorObj ''Tool execution error:'' (Error (''Unknown tool: '' @ name))]\<rparr>)
      \<and> commands (events_since s (snd (call_tool rt mgr name args s))) = [])
   \<and> call_tool rt mgr ''list_workflows'' args = respond rt (listWorkflows rt mgr)
   \<and> call_tool rt mgr ''update_workflow'' args
     = respond rt (seq (lift (get_prop args ''workflowId'')) (\<lambda>workflowId.
                   seq (lift (get_prop args ''updateData'')) (\<lambda>updateData.
                   updateWorkflow rt mgr workflowId updateData)))
   \<and> call_tool rt mgr ''restart_container'' args = respond rt (restartContainer rt mgr)
   \<and> call_tool rt mgr ''backup_workflows'' args = respond rt (backupWorkflows rt mgr)
   \<and> call_tool rt mgr ''troubleshoot'' args
     = respond rt (seq (lift (get_prop args ''workflowId'')) (\<lambda>workflowId.
                   troubleshoot rt mgr workflowId))
   \<and> (destructure request = Inr (method, params) \<longrightarrow>
        (method \<notin> JStr ` {''list-workflows'', ''update-workflow'', ''restart-container'',
                             ''backup-workflows'', ''troubleshoot''} \<longrightarrow>
           p0_handleRequest rt mgr request s = (Inr ''Unknown command'', s)
           \<and> (json_parse rt data = Inr request \<longrightarrow>
                p0_on_data rt mgr data s
                = (Inr (),
                   \<lparr>world = world s,
                    trace = trace s
                      @ [ConsoleLog (json_stringify rt (JObj [(''result'', JStr ''Unknown command'')]) 0)]\<rparr>)))
      \<and> (method = JStr ''list-workflows'' \<longrightarrow> p0_handleRequest rt mgr request = p0_listWorkflows rt mgr)
      \<and> (method = JStr ''update-workflow'' \<longrightarrow>
           p0_handleRequest rt mgr request
           = seq (lift (get_prop params ''id'')) (\<lambda>i.
             seq (lift (get_prop params ''file'')) (\<lambda>f. p0_updateWorkflow rt mgr i f)))
      \<and> (method = JStr ''restart-container'' \<longrightarrow>
           p0_handleRequest rt mgr request = p0_restartContainer rt mgr)
      \<and> (method = JStr ''backup-workflows'' \<longrightarrow>
           p0_handleRequest rt mgr request = p0_backupWorkflows rt mgr)
      \<and> (method = JStr ''troubleshoot'' \<longrightarrow>
           p0_handleRequest rt mgr request
           = seq (lift (get_prop params ''workflow'')) (\<lambda>w. p0_troubleshoot rt mgr w)))"
proof (intro conjI impI)
  assume unknown: "name \<notin> {''list_workflows'', ''update_workflow'', ''restart_container'',
                            ''backup_workflows'', ''troubleshoot''}"
  show "call_tool rt mgr name args s
      = (Inr \<lparr>content = [TextContent (''Error: Unknown tool: '' @ name)], isError = Some True\<rparr>,
         \<lparr>world = world s,
          trace = trace s @ [ConsoleErrorObj ''Tool execution error:'' (Error (''Unknown tool: '' @ name))]\<rparr>)"
    using unknown by (rule call_tool_unknown)
  show "commands (events_since s (snd (call_tool rt mgr name args s))) = []"
    by (simp add: call_tool_unknown [OF unknown])
next
  assume d: "destructure request = Inr (method, params)"
    and unknown: "method \<notin> JStr ` {''list-workflows'', ''update-workflow'', ''restart-container'',
                                     ''backup-workflows'', ''troubleshoot''}"
  show "p0_handleRequest rt mgr request s = (Inr ''Unknown command'', s)"
    using d unknown by (rule p0_handleRequest_unknown)
  assume "json_parse rt data = Inr request"
  then show "p0_on_data rt mgr data s
                = (Inr (),
                   \<lparr>world = world s,
                    trace = trace s
                      @ [ConsoleLog (json_stringify rt (JObj [(''result'', JStr ''Unknown command'')]) 0)]\<rparr>)"
    using d unknown by (rule p0_on_data_unknown)
qed (simp_all add: call_tool_routes p0_handleRequest_routes)

theorem dispatch_routes_known_and_rejects_unknown_witness:
  "call_tool (example_rt 9 [] ''ok'') (new_manager None) ''delete_workflow'' JUndefined
     \<lparr>world = 0, trace = []\<rparr>
   = (Inr \<lparr>content = [TextContent ''Error: Unknown tool: delete_workflow''], isError = Some True\<rparr>,
      \<lparr>world = 0,
       trace = [ConsoleErrorObj ''Tool execution error:'' (Error ''Unknown tool: delete_workflow'')]\<rparr>)
   \<and> destructure (JObj [(''method'', JStr ''delete-workflow'')]) = Inr (JStr ''delete-workflow'', JUndefined)
   \<and> p0_handleRequest requests_rt (new_manager None) (JObj [(''method'', JStr ''delete-workflow'')])
       \<lparr>world = 0, trace = []\<rparr>
     = (Inr ''Unknown command'', \<lparr>world = 0, trace = []\<rparr>)
   \<and> p0_on_data requests_rt (new_manager None) ''{\"method\":\"delete-workflow\"}''
       \<lparr>world = 0, trace = []\<rparr>
     = (Inr (), \<lparr>world = 0, trace = [ConsoleLog ''{\"result\":\"Unknown command\"}'']\<rparr>)
   \<and> p0_handleRequest requests_rt (new_manager None) (JObj [(''method'', JStr ''list-workflows'')])
     = p0_listWorkflows requests_rt (new_manager None)"
proof -
  let ?s = "\<lparr>world = 0::nat, trace = []\<rparr>"
  have a: "''delete_workflow'' \<notin> {''list_workflows'', ''update_workflow'', ''restart_container'',
                                    ''backup_workflows'', ''troubleshoot''}"
    by simp
  have b: "destructure (JObj [(''method'', JStr ''delete-workflow'')]) = Inr (JStr ''delete-workflow'', JUndefined)"
    by (simp add: destructure_def)
  have c: "JStr ''delete-workflow'' \<notin> JStr ` {''list-workflows'', ''update-workflow'', ''restart-container'',
                                                 ''backup-workflows'', ''troubleshoot''}"
    by simp
  have d: "json_parse requests_rt ''{\"method\":\"delete-workflow\"}''
           = Inr (JObj [(''method'', JStr ''delete-workflow'')])"
    by (simp add: requests_rt_def example_parse_requests_def)
  have e: "destructure (JObj [(''method'', JStr ''list-workflows'')]) = Inr (JStr ''list-workflows'', JUndefined)"
    by (simp add: destructure_def)
  note inst1 = dispatch_routes_known_and_rejects_unknown
    [of "''delete_workflow''" "example_rt 9 [] ''ok''" "new_manager None" JUndefined ?s
        "JObj [(''method'', JStr ''delete-workflow'')]" "JStr ''delete-workflow''" JUndefined]
  note inst2 = dispatch_routes_known_and_rejects_unknown
    [of "''list_workflows''" requests_rt "new_manager None" JUndefined ?s
        "JObj [(''method'', JStr ''delete-workflow'')]" "JStr ''delete-workflow''" JUndefined
        "''{\"method\":\"delete-workflow\"}''"]
  note inst3 = dispatch_routes_known_and_rejects_unknown
    [of "''list_workflows''" requests_rt "new_manager None" JUndefined ?s
        "JObj [(''method'', JStr ''list-workflows'')]" "JStr ''list-workflows''" JUndefined]
  note p0_part = conjunct2 [THEN conjunct2, THEN conjunct2, THEN conjunct2, THEN conjunct2, THEN conjunct2]
  have tool: "call_tool (example_rt 9 [] ''ok'') (new_manager None) ''delete_workflow'' JUndefined ?s
     = (Inr \<lparr>content = [TextContent (''Error: Unknown tool: '' @ ''delete_workflow'')], isError = Some True\<rparr>,
        \<lparr>world = world ?s,
         trace = trace ?s
           @ [ConsoleErrorObj ''Tool execution error:'' (Error (''Unknown tool: '' @ ''delete_workflow''))]\<rparr>)"
    using inst1 [THEN conjunct1, THEN mp, OF a] by (rule conjunct1)
  note unknown = inst2 [THEN p0_part, THEN mp, OF b, THEN conjunct1, THEN mp, OF c]
  have request: "p0_handleRequest requests_rt (new_manager None)
       (JObj [(''method'', JStr ''delete-workflow'')]) ?s
     = (Inr ''Unknown command'', ?s)"
    using unknown by (rule conjunct1)
  have line: "p0_on_data requests_rt (new_manager None) ''{\"method\":\"delete-workflow\"}'' ?s
     = (Inr (),
        \<lparr>world = world ?s,
         trace = trace ?s
           @ [ConsoleLog (json_stringify requests_rt (JObj [(''result'', JStr ''Unknown command'')]) 0)]\<rparr>)"
    using unknown [THEN conjunct2, THEN mp, OF d] .
  have known: "p0_handleRequest requests_rt (new_manager None) (JObj [(''method'', JStr ''list-workflows'')])
     = p0_listWorkflows requests_rt (new_manager None)"
    using inst3 [THEN p0_part, THEN mp, OF e, THEN conjunct2, THEN conjunct1] by simp
  have show_line: "json_stringify requests_rt (JObj [(''result'', JStr ''Unknown command'')]) 0
      = ''{\"result\":\"Unknown command\"}''"
    by (simp add: requests_rt_def example_rt_def)
  from tool request line known b show ?thesis
    by (simp add: show_line)
qed

section \<open>Replies of the server of part_000\<close>




















section \<open>Every request is answered\<close>




section \<open>Replies of part_000 carry a result\<close>







section \<open>Names of backup files\<close>

lemma digit_in_digits: "digit n \<in> set ''0123456789''"
  unfolding digit_def by (rule nth_mem) simp

lemma digit_inj:
  assumes "digit a = digit b"
  shows "a mod 10 = b mod 10"
proof -
  have "distinct ''0123456789''"
    by simp
  moreover have "a mod 10 < length ''0123456789''" "b mod 10 < length ''0123456789''"
    by simp_all
  ultimately show ?thesis
    using assms unfolding digit_def by (simp only: nth_eq_iff_index_eq)
qed

lemma length_pad [simp]: "length (pad k n) = k"
  by (induction k arbitrary: n) simp_all

lemma pad_inj:
  assumes "pad k a = pad k b" and "a < 10 ^ k" and "b < 10 ^ k"
  shows "a = b"
  using assms
proof (induction k arbitrary: a b)
  case 0
  then show ?case by simp
next
  case (Suc k)
  from Suc.prems(1) have hi: "pad k (a div 10) = pad k (b div 10)" and lo: "digit a = digit b"
    by simp_all
  have "a div 10 < 10 ^ k" "b div 10 < 10 ^ k"
    using Suc.prems(2,3) by (simp_all add: less_mult_imp_div_less mult.commute)
  with hi have "a div 10 = b div 10"
    by (rule Suc.IH)
  moreover have "a mod 10 = b mod 10"
    using lo by (rule digit_inj)
  ultimately show ?case
    by (metis div_mult_mod_eq)
qed

lemma replace_pad [simp]: "replace_colon_dot (pad k n) = pad k n"
proof (induction k arbitrary: n)
  case 0
  show ?case by (simp add: replace_colon_dot_def)
next
  case (Suc k)
  have "digit n \<noteq> CHR '':'' \<and> digit n \<noteq> CHR ''.''"
    using digit_in_digits [of n] by auto
  then show ?case
    using Suc [of "n div 10"] by (simp add: replace_colon_dot_def)
qed

lemma replace_append [simp]:
  "replace_colon_dot (a @ b) = replace_colon_dot a @ replace_colon_dot b"
  by (simp add: replace_colon_dot_def)

lemma replace_literals:
  "replace_colon_dot ''-'' = ''-''" "replace_colon_dot '':'' = ''-''" "replace_colon_dot ''.'' = ''-''"
  "replace_colon_dot ''T'' = ''T''" "replace_colon_dot ''Z'' = ''Z''" "replace_colon_dot ''+'' = ''+''"
  by (simp_all add: replace_colon_dot_def)

lemma stamp_shape:
  "replace_colon_dot (toISOString d)
   = year_text (year d) @ ''-'' @ pad 2 (month d) @ ''-'' @ pad 2 (day d) @ ''T'' @ pad 2 (hour d)
     @ ''-'' @ pad 2 (minute d) @ ''-'' @ pad 2 (second d) @ ''-'' @ pad 3 (millis d) @ ''Z''"
  unfolding toISOString_def year_text_def
  by (simp only: replace_append replace_pad replace_literals if_distrib [of replace_colon_dot])

lemma length_year_text: "length (year_text y) = (if y \<le> 9999 then 4 else 7)"
  by (simp add: year_text_def)

lemma year_text_inj:
  assumes "year_text a = year_text b" and "a \<le> 275760" and "b \<le> 275760"
  shows "a = b"
proof -
  have "length (year_text a) = length (year_text b)"
    using assms(1) by simp
  then have same: "a \<le> 9999 \<longleftrightarrow> b \<le> 9999"
    by (simp add: length_year_text split: if_splits)
  show ?thesis
  proof (cases "a \<le> 9999")
    case True
    then have "pad 4 a = pad 4 b" "a < 10 ^ 4" "b < 10 ^ 4"
      using assms(1) same by (simp_all add: year_text_def)
    then show ?thesis
      by (rule pad_inj)
  next
    case False
    then have "pad 6 a = pad 6 b" "a < 10 ^ 6" "b < 10 ^ 6"
      using assms same by (simp_all add: year_text_def)
    then show ?thesis
      by (rule pad_inj)
  qed
qed

lemma backup_file_name_inj:
  assumes "backup_file_name d1 = backup_file_name d2" and "valid_utc d1" and "valid_utc d2"
  shows "d1 = d2"
proof -
  let ?tail = "\<lambda>d. ''-'' @ pad 2 (month d) @ ''-'' @ pad 2 (day d) @ ''T'' @ pad 2 (hour d)
     @ ''-'' @ pad 2 (minute d) @ ''-'' @ pad 2 (second d) @ ''-'' @ pad 3 (millis d) @ ''Z''"
  have eq: "year_text (year d1) @ ?tail d1 = year_text (year d2) @ ?tail d2"
    using assms(1) by (simp add: backup_file_name_def stamp_shape)
  have len: "length (year_text (year d1)) = length (year_text (year d2))
             \<or> length (?tail d1) = length (?tail d2)"
    by simp
  from append_eq_append_conv [THEN iffD1, OF len eq]
  have y: "year_text (year d1) = year_text (year d2)" and r: "?tail d1 = ?tail d2"
    by (rule conjunct1, rule conjunct2)
  have fields: "pad 2 (month d1) = pad 2 (month d2)" "pad 2 (day d1) = pad 2 (day d2)"
    "pad 2 (hour d1) = pad 2 (hour d2)" "pad 2 (minute d1) = pad 2 (minute d2)"
    "pad 2 (second d1) = pad 2 (second d2)" "pad 3 (millis d1) = pad 3 (millis d2)"
    using r by (simp_all del: pad.simps)
  have "year d1 = year d2"
    using y assms(2,3) by (intro year_text_inj) (simp_all add: valid_utc_def)
  moreover have "month d1 = month d2"
    using fields(1) assms(2,3) by (intro pad_inj [of 2]) (simp_all add: valid_utc_def)
  moreover have "day d1 = day d2"
    using fields(2) assms(2,3) by (intro pad_inj [of 2]) (simp_all add: valid_utc_def)
  moreover have "hour d1 = hour d2"
    using fields(3) assms(2,3) by (intro pad_inj [of 2]) (simp_all add: valid_utc_def)
  moreover have "minute d1 = minute d2"
    using fields(4) assms(2,3) by (intro pad_inj [of 2]) (simp_all add: valid_utc_def)
  moreover have "second d1 = second d2"
    using fields(5) assms(2,3) by (intro pad_inj [of 2]) (simp_all add: valid_utc_def)
  moreover have "millis d1 = millis d2"
    using fields(6) assms(2,3) by (intro pad_inj [of 3]) (simp_all add: valid_utc_def)
  ultimately show ?thesis
    by simp
qed


lemma pad_numeral: "pad (numeral k) n = pad (pred_numeral k) (n div 10) @ [digit n]"
  by (subst numeral_eq_Suc) (rule pad.simps)

lemma example_clock_name:
  "backup_file_name example_clock = ''n8n-backup-2024-03-09T14-05-07-042Z.json''"
  by (simp add: backup_file_name_def toISOString_def year_text_def replace_colon_dot_def
      example_clock_def pad_numeral digit_def)

lemma backupWorkflows_returns:
  assumes "backupWorkflows rt mgr s = (Inr r, s')"
  shows "r = JObj [(''success'', JBool True), (''file'', JStr (backup_file_name (date_utc rt (world s))))]"
  using assms unfolding backupWorkflows_def
  by (auto elim!: try_catchE seqE executeCommandE)

lemma p0_backupWorkflows_returns:
  assumes "p0_backupWorkflows rt mgr s = (Inr (''Backup created: '' @ f), s')"
  shows "f = backup_file_name (date_utc rt (world s))"
  using assms unfolding p0_backupWorkflows_def
  by (auto elim!: try_catchE seqE p0_executeCommandE)

lemma backup_file_name_eq_iff:
  "valid_utc d1 \<Longrightarrow> valid_utc d2 \<Longrightarrow> backup_file_name d1 = backup_file_name d2 \<longleftrightarrow> d1 = d2"
  using backup_file_name_inj by blast

text \<open>
  Two backups in a row while the clock stands still, both successful: the second returns
  the file name of the first, in either file.
\<close>

theorem backup_names_collide_counterexample:
  "fst (backupWorkflows (example_rt 9 [] ''ok'') (new_manager None) start_state)
   = Inr (JObj [(''success'', JBool True), (''file'', JStr ''n8n-backup-2024-03-09T14-05-07-042Z.json'')])
   \<and> fst (backupWorkflows (example_rt 9 [] ''ok'') (new_manager None)
            (snd (backupWorkflows (example_rt 9 [] ''ok'') (new_manager None) start_state)))
   = Inr (JObj [(''success'', JBool True), (''file'', JStr ''n8n-backup-2024-03-09T14-05-07-042Z.json'')])
   \<and> fst (p0_backupWorkflows (example_rt 9 [] ''ok'') (new_manager None) start_state)
   = Inr ''Backup created: n8n-backup-2024-03-09T14-05-07-042Z.json''
   \<and> fst (p0_backupWorkflows (example_rt 9 [] ''ok'') (new_manager None)
            (snd (p0_backupWorkflows (example_rt 9 [] ''ok'') (new_manager None) start_state)))
   = Inr ''Backup created: n8n-backup-2024-03-09T14-05-07-042Z.json''"
proof -
  have name: "backup_file_name example_clock = ''n8n-backup-2024-03-09T14-05-07-042Z.json''"
    by (simp add: example_clock_name)
  show ?thesis
    by (simp add: backupWorkflows_def p0_backupWorkflows_def run_defs example_rt_def start_state_def
        new_manager_def name del: pad.simps)
qed

text \<open>
  C6, amended. A backup that succeeds returns the file name \<open>n8n-backup-\<close>, the ISO text of
  the clock reading taken when the operation starts, with every colon and dot replaced by
  a hyphen, and \<open>.json\<close>. The name is decided by that reading alone: two successful backups
  return the same name exactly when their clock readings are the same to the millisecond,
  so two backups started within the same millisecond return the same name.
\<close>

theorem backup_names_follow_the_clock:
  "(backupWorkflows rt mgr s1 = (Inr r1, s1') \<and> backupWorkflows rt mgr s2 = (Inr r2, s2')
      \<and> valid_utc (date_utc rt (world s1)) \<and> valid_utc (date_utc rt (world s2))
    \<longrightarrow> r1 = JObj [(''success'', JBool True),
                    (''file'', JStr (backup_file_name (date_utc rt (world s1))))]
        \<and> r2 = JObj [(''success'', JBool True),
                      (''file'', JStr (backup_file_name (date_utc rt (world s2))))]
        \<and> (r1 = r2 \<longleftrightarrow> date_utc rt (world s1) = date_utc rt (world s2)))
   \<and> (p0_backupWorkflows rt mgr s1 = (Inr (''Backup created: '' @ f1), s1')
      \<and> p0_backupWorkflows rt mgr s2 = (Inr (''Backup created: '' @ f2), s2')
      \<and> valid_utc (date_utc rt (world s1)) \<and> valid_utc (date_utc rt (world s2))
    \<longrightarrow> f1 = backup_file_name (date_utc rt (world s1))
        \<and> f2 = backup_file_name (date_utc rt (world s2))
        \<and> (f1 = f2 \<longleftrightarrow> date_utc rt (world s1) = date_utc rt (world s2)))"
proof (intro conjI impI)
  assume a: "backupWorkflows rt mgr s1 = (Inr r1, s1') \<and> backupWorkflows rt mgr s2 = (Inr r2, s2')
      \<and> valid_utc (date_utc rt (world s1)) \<and> valid_utc (date_utc rt (world s2))"
  then show r1: "r1 = JObj [(''success'', JBool True),
                    (''file'', JStr (backup_file_name (date_utc rt (world s1))))]"
    and r2: "r2 = JObj [(''success'', JBool True),
                    (''file'', JStr (backup_file_name (date_utc rt (world s2))))]"
    using backupWorkflows_returns by blast+
  show "r1 = r2 \<longleftrightarrow> date_utc rt (world s1) = date_utc rt (world s2)"
    using a backup_file_name_eq_iff [of "date_utc rt (world s1)" "date_utc rt (world s2)"]
    by (simp add: r1 r2)
next
  assume a: "p0_backupWorkflows rt mgr s1 = (Inr (''Backup created: '' @ f1), s1')
      \<and> p0_backupWorkflows rt mgr s2 = (Inr (''Backup created: '' @ f2), s2')
      \<and> valid_utc (date_utc rt (world s1)) \<and> valid_utc (date_utc rt (world s2))"
  then show f1: "f1 = backup_file_name (date_utc rt (world s1))"
    and f2: "f2 = backup_file_name (date_utc rt (world s2))"
    using p0_backupWorkflows_returns by blast+
  show "f1 = f2 \<longleftrightarrow> date_utc rt (world s1) = date_utc rt (world s2)"
    using a backup_file_name_eq_iff [of "date_utc rt (world s1)" "date_utc rt (world s2)"]
    by (simp add: f1 f2)
qed


lemma ticking_names:
  "backup_file_name (example_clock\<lparr>millis := 0\<rparr>) = ''n8n-backup-2024-03-09T14-05-07-000Z.json''"
  "backup_file_name (example_clock\<lparr>millis := 2\<rparr>) = ''n8n-backup-2024-03-09T14-05-07-002Z.json''"
  by (simp_all add: backup_file_name_def toISOString_def year_text_def replace_colon_dot_def
      example_clock_def pad_numeral digit_def)

theorem backup_names_follow_the_clock_witness:
  "backupWorkflows ticking_rt (new_manager None) start_state
   = (Inr (JObj [(''success'', JBool True), (''file'', JStr ''n8n-backup-2024-03-09T14-05-07-000Z.json'')]),
      \<lparr>world = 2,
       trace = [Exec (cmd_export_all (new_manager None) ''n8n-backup-2024-03-09T14-05-07-000Z.json'')
                  (Done ''ok'' []),
                Exec (cmd_copy_out (new_manager None) ''n8n-backup-2024-03-09T14-05-07-000Z.json'')
                  (Done ''ok'' [])]\<rparr>)
   \<and> fst (backupWorkflows ticking_rt (new_manager None)
        \<lparr>world = 2,
         trace = [Exec (cmd_export_all (new_manager None) ''n8n-backup-2024-03-09T14-05-07-000Z.json'')
                    (Done ''ok'' []),
                  Exec (cmd_copy_out (new_manager None) ''n8n-backup-2024-03-09T14-05-07-000Z.json'')
                    (Done ''ok'' [])]\<rparr>)
     = Inr (JObj [(''success'', JBool True), (''file'', JStr ''n8n-backup-2024-03-09T14-05-07-002Z.json'')])
   \<and> fst (p0_backupWorkflows ticking_rt (new_manager None) start_state)
     = Inr (''Backup created: '' @ ''n8n-backup-2024-03-09T14-05-07-000Z.json'')
   \<and> valid_utc (date_utc ticking_rt (world start_state)) \<and> valid_utc (date_utc ticking_rt 2)
   \<and> date_utc ticking_rt (world start_state) \<noteq> date_utc ticking_rt 2"
proof -
  let ?mgr = "new_manager None"
  let ?n0 = "''n8n-backup-2024-03-09T14-05-07-000Z.json''"
  let ?n2 = "''n8n-backup-2024-03-09T14-05-07-002Z.json''"
  let ?s1 = "\<lparr>world = 2::nat,
       trace = [Exec (cmd_export_all ?mgr ?n0) (Done ''ok'' []),
                Exec (cmd_copy_out ?mgr ?n0) (Done ''ok'' [])]\<rparr>"
  let ?r1 = "JObj [(''success'', JBool True), (''file'', JStr ?n0)]"
  let ?r2 = "JObj [(''success'', JBool True), (''file'', JStr ?n2)]"
  define s2 where "s2 = snd (backupWorkflows ticking_rt ?mgr ?s1)"
  define p1 where "p1 = snd (p0_backupWorkflows ticking_rt ?mgr start_state)"
  have clock0: "date_utc ticking_rt (world start_state) = example_clock\<lparr>millis := 0\<rparr>"
    and clock2: "date_utc ticking_rt (world ?s1) = example_clock\<lparr>millis := 2\<rparr>"
    by (simp_all add: ticking_rt_def example_rt_def start_state_def)
  have run1: "backupWorkflows ticking_rt ?mgr start_state = (Inr ?r1, ?s1)"
    by (simp add: backupWorkflows_def run_defs ticking_rt_def example_rt_def start_state_def
        ticking_names del: pad.simps)
  have "fst (backupWorkflows ticking_rt ?mgr ?s1) = Inr ?r2"
    by (simp add: backupWorkflows_def run_defs ticking_rt_def example_rt_def ticking_names
        del: pad.simps)
  then have run2: "backupWorkflows ticking_rt ?mgr ?s1 = (Inr ?r2, s2)"
    by (simp add: s2_def prod_eq_iff)
  have "fst (p0_backupWorkflows ticking_rt ?mgr start_state) = Inr (''Backup created: '' @ ?n0)"
    by (simp add: p0_backupWorkflows_def run_defs ticking_rt_def example_rt_def start_state_def
        ticking_names del: pad.simps)
  then have run3: "p0_backupWorkflows ticking_rt ?mgr start_state = (Inr (''Backup created: '' @ ?n0), p1)"
    by (simp add: p1_def prod_eq_iff)
  have valid: "valid_utc (date_utc ticking_rt (world start_state))"
    "valid_utc (date_utc ticking_rt (world ?s1))"
    by (simp_all add: ticking_rt_def example_rt_def start_state_def valid_utc_def example_clock_def)
  note inst = backup_names_follow_the_clock
    [where rt = ticking_rt and mgr = ?mgr and ?s1.0 = start_state and ?s2.0 = ?s1 and ?s1' = ?s1
       and ?s2' = s2 and ?r1.0 = ?r1 and ?r2.0 = ?r2]
  note inst0 = backup_names_follow_the_clock
    [where rt = ticking_rt and mgr = ?mgr and ?s1.0 = start_state and ?s2.0 = start_state
       and ?s1' = p1 and ?s2' = p1 and ?f1.0 = ?n0 and ?f2.0 = ?n0]
  have "(?r1 = ?r2) = (date_utc ticking_rt (world start_state) = date_utc ticking_rt (world ?s1))"
    using inst run1 run2 valid by blast
  then have differ: "date_utc ticking_rt (world start_state) \<noteq> date_utc ticking_rt 2"
    by simp
  have same: "(?n0 = ?n0) = (date_utc ticking_rt (world start_state) = date_utc ticking_rt (world start_state))"
    using inst0 run3 valid(1) by blast
  have valid2: "valid_utc (date_utc ticking_rt 2)"
    using valid(2) by simp
  from run1 run2 run3 same valid(1) valid2 differ show ?thesis
    by simp
qed

end
